theory Spec2Isabelle
  imports Main "HOL-Library.AList" "HOL-Library.Word"
begin

unbundle bit_operations_syntax

section \<open>JSON values and the JavaScript operators the handlers apply to them\<close>

text \<open>
  Notebook metadata, cell metadata and command arguments are JSON values
  (\<open>PartialJSONValue\<close>). An object keeps its entries as an association list
  in insertion order; \<open>map_of\<close> reads a property. A value that may be
  \<open>undefined\<close> is a \<open>json option\<close>, \<open>None\<close> being \<open>undefined\<close>.
  JSON numbers are represented by integers.
\<close>

datatype json =
    JNull
  | JBool bool
  | JNum int
  | JStr string
  | JArr "json list"
  | JObj "(string \<times> json) list"

type_synonym args = "(string \<times> json) list"

text \<open>JavaScript truthiness (\<open>if (v)\<close>, \<open>v || w\<close>, \<open>!!v\<close>).\<close>

fun truthy :: "json \<Rightarrow> bool" where
  "truthy JNull = False"
| "truthy (JBool b) = b"
| "truthy (JNum n) = (n \<noteq> 0)"
| "truthy (JStr s) = (s \<noteq> [])"
| "truthy (JArr xs) = True"
| "truthy (JObj kvs) = True"

text \<open>\<open>x || {}\<close>: the value itself when it is truthy, a fresh empty object otherwise.\<close>

definition orEmpty :: "json option \<Rightarrow> json" where
  "orEmpty x = (case x of None \<Rightarrow> JObj [] | Some v \<Rightarrow> if truthy v then v else JObj [])"

text \<open>\<open>x ?? {}\<close>: only \<open>undefined\<close> and \<open>null\<close> are replaced.\<close>

definition nullishOrEmpty :: "json option \<Rightarrow> json" where
  "nullishOrEmpty x = (case x of None \<Rightarrow> JObj [] | Some JNull \<Rightarrow> JObj [] | Some v \<Rightarrow> v)"

text \<open>
  \<open>v[k]\<close> for the keys the handlers read (\<open>theme\<close>, \<open>autolaunch\<close>,
  \<open>slide_type\<close>): an own property of an object; \<open>undefined\<close> on an array, a
  string, a number or a boolean, none of which has such a property.
\<close>

fun getField :: "json \<Rightarrow> string \<Rightarrow> json option" where
  "getField (JObj kvs) k = map_of kvs k"
| "getField v k = None"

text \<open>The key of an array index: its decimal digits.\<close>

fun indexKey :: "nat \<Rightarrow> string" where
  "indexKey n = (if 10 \<le> n then indexKey (n div 10) else []) @ [char_of (n mod 10 + 48)]"

declare indexKey.simps [simp del]

definition indexed :: "json list \<Rightarrow> (string \<times> json) list" where
  "indexed xs = zip (map indexKey [0..<length xs]) xs"

text \<open>
  The own enumerable properties copied by an object spread \<open>{ ...v }\<close>: the
  entries of an object, the indexed elements of an array, the indexed
  characters of a string, nothing for a number, a boolean or \<open>null\<close>.
\<close>

fun spread :: "json \<Rightarrow> (string \<times> json) list" where
  "spread (JObj kvs) = kvs"
| "spread (JArr xs) = indexed xs"
| "spread (JStr s) = indexed (map (\<lambda>c. JStr [c]) s)"
| "spread v = []"

text \<open>
  Strict equality \<open>a === b\<close> between two values that may be \<open>undefined\<close>.
  Primitives compare by value. Objects and arrays compare by reference: a
  command argument and a stored metadata value are never the same reference.
\<close>

fun primitive :: "json \<Rightarrow> bool" where
  "primitive (JArr xs) = False"
| "primitive (JObj kvs) = False"
| "primitive v = True"

definition strictEq :: "json option \<Rightarrow> json option \<Rightarrow> bool" where
  "strictEq a b = (case a of None \<Rightarrow> b = None | Some v \<Rightarrow> primitive v \<and> b = Some v)"

text \<open>\<open>String.prototype.includes\<close>: the needle occurs as a contiguous substring.\<close>

fun startsWith :: "string \<Rightarrow> string \<Rightarrow> bool" where
  "startsWith s [] = True"
| "startsWith [] (c # cs) = False"
| "startsWith (d # ds) (c # cs) = (d = c \<and> startsWith ds cs)"

fun includesStr :: "string \<Rightarrow> string \<Rightarrow> bool" where
  "includesStr [] needle = (needle = [])"
| "includesStr (d # ds) needle = (startsWith (d # ds) needle \<or> includesStr ds needle)"

section \<open>The host: notebook panels, the shell, the DOM\<close>

text \<open>
  The metadata store of a notebook model or of a cell model:
  \<open>getMetadata k\<close> is \<open>md k\<close>, \<open>setMetadata k v\<close> is \<open>md(k \<mapsto> v)\<close>,
  \<open>deleteMetadata k\<close> is \<open>md(k := None)\<close>.
\<close>

type_synonym metadata = "string \<rightharpoonup> json"

record notebook_panel =
  path :: string
  model :: "metadata option"
  cells :: "metadata list"
  activeCellIndex :: int

text \<open>\<open>content.activeCell\<close>: the cell at the active index, \<open>null\<close> when there is none.\<close>

definition activeCell :: "notebook_panel \<Rightarrow> nat option" where
  "activeCell p =
     (if 0 \<le> activeCellIndex p \<and> nat (activeCellIndex p) < length (cells p)
      then Some (nat (activeCellIndex p)) else None)"

text \<open>Every call the handlers make on the host is recorded, in order.\<close>

datatype event =
    GetMetadata string string
  | SetMetadata string string json
  | CellGetMetadata string nat string
  | CellSetMetadata string nat string json
  | CellDeleteMetadata string nat string
  | Save string
  | ShowDialog string
  | StatusText string
  | IframeSrcSet nat string
  | WidgetUpdate
  | BodyClassAdd string
  | ActivateById json
  | WindowOpen string int
  | DocManagerOpen string
  | PreviewSetActiveCellIndex int
  | RequestFullscreen string
  | ExitFullscreen
  | IframeFocus string
  | ToolbarInsert string string
  | CommandExecute string args

record state =
  panels :: "string \<rightharpoonup> notebook_panel"
  trackerCurrent :: "string option"
  shellCurrent :: "string option"
  previews :: "string \<rightharpoonup> bool option"
  documentFullscreen :: bool
  appName :: string
  settings :: "metadata option"
  iframes :: "string list"
  statusEl :: bool
  trace :: "event list"

definition emit :: "event list \<Rightarrow> state \<Rightarrow> state" where
  "emit es s = s\<lparr>trace := trace s @ es\<rparr>"

text \<open>The events a handler added when it took \<open>s\<close> to \<open>s'\<close>.\<close>

definition emitted :: "state \<Rightarrow> state \<Rightarrow> event list" where
  "emitted s s' = drop (length (trace s)) (trace s')"

text \<open>\<open>notebookTracker.currentWidget\<close>, with its widget id.\<close>

definition currentWidget :: "state \<Rightarrow> (string \<times> notebook_panel) option" where
  "currentWidget s =
     (case trackerCurrent s of
        None \<Rightarrow> None
      | Some i \<Rightarrow> (case panels s i of None \<Rightarrow> None | Some p \<Rightarrow> Some (i, p)))"

text \<open>\<open>model.setMetadata(k, v)\<close> on the model of panel \<open>i\<close>.\<close>

definition setMetadata :: "string \<Rightarrow> notebook_panel \<Rightarrow> metadata \<Rightarrow> string \<Rightarrow> json \<Rightarrow> state \<Rightarrow> state" where
  "setMetadata i p md k v s =
     emit [SetMetadata i k v] (s\<lparr>panels := (panels s)(i \<mapsto> p\<lparr>model := Some (md(k \<mapsto> v))\<rparr>)\<rparr>)"

text \<open>The notebook metadata stored under key \<open>k\<close> of panel \<open>i\<close>.\<close>

definition notebookMetadata :: "state \<Rightarrow> string \<Rightarrow> string \<Rightarrow> json option" where
  "notebookMetadata s i k =
     (case panels s i of
        None \<Rightarrow> None
      | Some p \<Rightarrow> (case model p of None \<Rightarrow> None | Some md \<Rightarrow> md k))"

fun isSave :: "event \<Rightarrow> bool" where
  "isSave (Save i) = True"
| "isSave e = False"

section \<open>The theme operations\<close>

text \<open>
  A handler returns or throws; either way it leaves a state behind, which
  \<open>final\<close> reads.
\<close>

datatype js_error = TypeError

datatype outcome = Returned state | Threw js_error state

fun final :: "outcome \<Rightarrow> state" where
  "final (Returned s) = s"
| "final (Threw e s) = s"

text \<open>
  \<open>riseMetadata['theme'] = themeName\<close> in the RISE:set-theme handler. The
  value is truthy or the fresh \<open>{}\<close>. On an object the property is set. On an
  array the assignment adds a non-index property, which is no part of the
  JSON value. On a string, a number or a boolean the assignment raises
  \<open>TypeError\<close>: the file is an ES module, hence strict-mode code.
\<close>

fun assignTheme :: "json \<Rightarrow> json \<Rightarrow> js_error + json" where
  "assignTheme (JObj kvs) t = Inr (JObj (AList.update ''theme'' t kvs))"
| "assignTheme (JArr xs) t = Inr (JArr xs)"
| "assignTheme v t = Inl TypeError"

definition riseSetTheme :: "state \<Rightarrow> args \<Rightarrow> outcome" where
  "riseSetTheme s args =
     (case (currentWidget s, map_of args ''theme'') of
        (Some (i, p), Some themeName) \<Rightarrow>
          if truthy themeName then
            (case model p of
               Some md \<Rightarrow>
                 (case assignTheme (orEmpty (md ''rise'')) themeName of
                    Inl e \<Rightarrow> Threw e (emit [GetMetadata i ''rise''] s)
                  | Inr riseMetadata \<Rightarrow>
                      Returned
                        (emit [ShowDialog ''Theme Updated'', BodyClassAdd ''rise-enabled'']
                          (setMetadata i p md ''rise'' riseMetadata
                            (emit [GetMetadata i ''rise''] s))))
             | None \<Rightarrow> Returned (emit [BodyClassAdd ''rise-enabled''] s))
          else Returned (emit [BodyClassAdd ''rise-enabled''] s)
      | _ \<Rightarrow> Returned (emit [BodyClassAdd ''rise-enabled''] s))"

text \<open>
  \<open>ThemePickerDialog._refreshRisePreview\<close>: every iframe of the document whose
  \<open>src\<close> contains \<open>reveal\<close> gets its \<open>src\<close> reassigned, in document order.
\<close>

definition refreshEvents :: "state \<Rightarrow> event list" where
  "refreshEvents s =
     map (\<lambda>(n, src). IframeSrcSet n src)
       (filter (\<lambda>(n, src). includesStr src ''reveal'') (enumerate 0 (iframes s)))"

definition refreshRisePreview :: "state \<Rightarrow> state" where
  "refreshRisePreview s = emit (refreshEvents s) s"

text \<open>
  \<open>ThemePickerDialog.updateMetadata\<close>. The status event carries the theme name
  the message is built from.
\<close>

definition updateMetadata :: "state \<Rightarrow> string \<Rightarrow> state" where
  "updateMetadata s themeName =
     (case currentWidget s of
        None \<Rightarrow> s
      | Some (i, p) \<Rightarrow>
          (case model p of
             None \<Rightarrow> s
           | Some md \<Rightarrow>
               (let riseMetadata = orEmpty (md ''rise'');
                    newMetadata = JObj (AList.update ''theme'' (JStr themeName) (spread riseMetadata));
                    s1 = setMetadata i p md ''rise'' newMetadata (emit [GetMetadata i ''rise''] s);
                    s2 = (if statusEl s1 then emit [StatusText themeName] s1 else s1);
                    s3 = emit [Save i] s2;
                    s4 = refreshRisePreview s3
                in emit [WidgetUpdate] s4)))"

text \<open>The RISE:theme-picker command: it opens the dialog that hosts the picker.\<close>

definition openThemePicker :: "state \<Rightarrow> state" where
  "openThemePicker s =
     (case currentWidget s of
        None \<Rightarrow> s
      | Some (i, p) \<Rightarrow> emit [ShowDialog ''Choose a Slideshow Theme''] s)"

section \<open>The slide-type command\<close>

text \<open>
  \<open>app.shell.currentWidget\<close> when it is a panel of the notebook tracker
  (\<open>current && notebookTracker.has(current)\<close>).
\<close>

definition shellNotebook :: "state \<Rightarrow> (string \<times> notebook_panel) option" where
  "shellNotebook s =
     (case shellCurrent s of
        None \<Rightarrow> None
      | Some i \<Rightarrow> (case panels s i of None \<Rightarrow> None | Some p \<Rightarrow> Some (i, p)))"

text \<open>The metadata store of cell \<open>c\<close> of panel \<open>i\<close> replaced by \<open>md\<close>.\<close>

definition setCell :: "string \<Rightarrow> notebook_panel \<Rightarrow> nat \<Rightarrow> metadata \<Rightarrow> state \<Rightarrow> state" where
  "setCell i p c md s = s\<lparr>panels := (panels s)(i \<mapsto> p\<lparr>cells := (cells p)[c := md]\<rparr>)\<rparr>"

text \<open>The metadata stored under key \<open>k\<close> of cell \<open>c\<close> of panel \<open>i\<close>.\<close>

definition cellMetadata :: "state \<Rightarrow> string \<Rightarrow> nat \<Rightarrow> string \<Rightarrow> json option" where
  "cellMetadata s i c k =
     (case panels s i of
        None \<Rightarrow> None
      | Some p \<Rightarrow> if c < length (cells p) then (cells p ! c) k else None)"

text \<open>
  The copy \<open>{ ...currentValue }\<close> after \<open>newValue['slide_type'] = value\<close> for a
  truthy \<open>value\<close> and after \<open>delete newValue['slide_type']\<close> otherwise.
\<close>

definition newSlideshow :: "json option \<Rightarrow> json \<Rightarrow> (string \<times> json) list" where
  "newSlideshow value currentValue =
     (case value of
        None \<Rightarrow> AList.delete ''slide_type'' (spread currentValue)
      | Some v \<Rightarrow>
          if truthy v then AList.update ''slide_type'' v (spread currentValue)
          else AList.delete ''slide_type'' (spread currentValue))"

definition riseSetSlideType :: "state \<Rightarrow> args \<Rightarrow> state" where
  "riseSetSlideType s args =
     (let value = map_of args ''type'' in
      case shellNotebook s of
        None \<Rightarrow> s
      | Some (i, p) \<Rightarrow>
          (case activeCell p of
             None \<Rightarrow> s
           | Some c \<Rightarrow>
               (let md = cells p ! c;
                    currentValue = nullishOrEmpty (md ''slideshow'');
                    s1 = emit [CellGetMetadata i c ''slideshow''] s
                in if \<not> strictEq value (getField currentValue ''slide_type'') then
                     (let newValue = newSlideshow value currentValue
                      in if newValue \<noteq> [] then
                           emit [CellSetMetadata i c ''slideshow'' (JObj newValue)]
                             (setCell i p c (md(''slideshow'' \<mapsto> JObj newValue)) s1)
                         else
                           emit [CellDeleteMetadata i c ''slideshow'']
                             (setCell i p c (md(''slideshow'' := None)) s1))
                   else s1)))"

fun isWrite :: "event \<Rightarrow> bool" where
  "isWrite (SetMetadata i k v) = True"
| "isWrite (CellSetMetadata i c k v) = True"
| "isWrite (CellDeleteMetadata i c k) = True"
| "isWrite e = False"

section \<open>The slideshow commands\<close>

definition openRise :: "state \<Rightarrow> state" where
  "openRise s =
     (case currentWidget s of
        None \<Rightarrow> s
      | Some (i, p) \<Rightarrow> emit [Save i, WindowOpen (path p) (activeCellIndex p)] s)"

text \<open>\<open>getCurrent\<close>: the tracker's current widget, activated unless \<open>args['activate'] === false\<close>.\<close>

definition getCurrent :: "state \<Rightarrow> args \<Rightarrow> state \<times> (string \<times> notebook_panel) option" where
  "getCurrent s args =
     (let widget = currentWidget s;
          activate = (\<not> strictEq (map_of args ''activate'') (Some (JBool False)))
      in case widget of
           None \<Rightarrow> (s, None)
         | Some (i, p) \<Rightarrow> if activate then (emit [ActivateById (JStr i)] s, widget) else (s, widget))"

text \<open>
  The RISE:preview command, up to the dialog it schedules when
  \<open>args['fullscreen'] === true\<close>.
\<close>

definition risePreview :: "state \<Rightarrow> args \<Rightarrow> state" where
  "risePreview s args =
     (case getCurrent s args of
        (s1, None) \<Rightarrow> s1
      | (s1, Some (i, p)) \<Rightarrow>
          (let s2 = emit [Save i, DocManagerOpen (path p),
                          PreviewSetActiveCellIndex (activeCellIndex p)] s1
           in if strictEq (map_of args ''fullscreen'') (Some (JBool True))
              then emit [ShowDialog ''Switch to full screen''] s2 else s2))"

text \<open>
  The RISE:fullscreen-plugin command. \<open>previews s w\<close> is the preview widget
  \<open>w\<close> of the preview tracker: \<open>Some None\<close> without an iframe,
  \<open>Some (Some fs)\<close> with an iframe whose document has a full-screen element
  exactly when \<open>fs\<close>. \<open>activateById\<close> gets the \<open>id\<close> argument as it is;
  only a string can equal a widget id.
\<close>

definition riseFullScreen :: "state \<Rightarrow> args \<Rightarrow> state" where
  "riseFullScreen s args =
     (let idArg = map_of args ''id'';
          hasId = (case idArg of None \<Rightarrow> False | Some v \<Rightarrow> truthy v);
          idStr = (case idArg of Some (JStr w) \<Rightarrow> Some w | _ \<Rightarrow> None);
          s1 = (case idArg of None \<Rightarrow> s | Some v \<Rightarrow> if truthy v then emit [ActivateById v] s else s);
          current = (if hasId then idStr else shellCurrent s)
      in case current of
           None \<Rightarrow> s1
         | Some w \<Rightarrow>
             (case previews s w of
                None \<Rightarrow> s1
              | Some None \<Rightarrow> s1
              | Some (Some fs) \<Rightarrow>
                  if \<not> documentFullscreen s \<and> \<not> fs
                  then emit [IframeFocus w, RequestFullscreen w] s1
                  else emit [ExitFullscreen, IframeFocus w] s1))"

datatype command =
    OpenRise
  | RisePreview
  | RiseFullScreen
  | RiseSetSlideType
  | RiseSetTheme
  | OpenThemePicker

text \<open>\<open>commands.execute\<close> on the six commands the plugin registers.\<close>

fun execute :: "state \<Rightarrow> command \<Rightarrow> args \<Rightarrow> outcome" where
  "execute s OpenRise args = Returned (openRise s)"
| "execute s RisePreview args = Returned (risePreview s args)"
| "execute s RiseFullScreen args = Returned (riseFullScreen s args)"
| "execute s RiseSetSlideType args = Returned (riseSetSlideType s args)"
| "execute s RiseSetTheme args = riseSetTheme s args"
| "execute s OpenThemePicker args = Returned (openThemePicker s)"

section \<open>Auto launch on a new notebook panel\<close>

text \<open>
  \<open>ToInt32\<close>, as the bitwise \<open>|=\<close> applies it to each operand. The conversion
  of a string, an array or an object goes through JavaScript's
  string-to-number grammar; it is the parameter \<open>conv\<close>.
\<close>

definition toInt32 :: "(json \<Rightarrow> int) \<Rightarrow> json option \<Rightarrow> int" where
  "toInt32 conv x =
     (case x of
        None \<Rightarrow> 0
      | Some JNull \<Rightarrow> 0
      | Some (JBool b) \<Rightarrow> (if b then 1 else 0)
      | Some (JNum n) \<Rightarrow> sint (word_of_int n :: 32 word)
      | Some v \<Rightarrow> conv v)"

definition bitOr :: "(json \<Rightarrow> int) \<Rightarrow> json option \<Rightarrow> json option \<Rightarrow> int" where
  "bitOr conv a b =
     sint ((word_of_int (toInt32 conv a) :: 32 word) OR word_of_int (toInt32 conv b))"

text \<open>\<open>(panel.content.model?.getMetadata('rise') ?? {})['autolaunch']\<close>.\<close>

definition autolaunchField :: "notebook_panel \<Rightarrow> json option" where
  "autolaunchField p =
     getField (nullishOrEmpty (case model p of None \<Rightarrow> None | Some md \<Rightarrow> md ''rise''))
       ''autolaunch''"

text \<open>
  The value of the local \<open>autolaunch\<close> when it is tested: the \<open>autolaunch\<close>
  field of the \<open>rise\<close> metadata, \<open>false\<close> when it is nullish, or-ed bitwise
  with the setting once the settings are loaded.
\<close>

definition autolaunchValue :: "(json \<Rightarrow> int) \<Rightarrow> state \<Rightarrow> notebook_panel \<Rightarrow> json" where
  "autolaunchValue conv s p =
     (let autolaunch =
            (case autolaunchField p of
               None \<Rightarrow> JBool False
             | Some JNull \<Rightarrow> JBool False
             | Some v \<Rightarrow> v)
      in case settings s of
           None \<Rightarrow> autolaunch
         | Some cfg \<Rightarrow> JNum (bitOr conv (Some autolaunch) (cfg ''autolaunch'')))"

text \<open>
  The handler of \<open>notebookTracker.widgetAdded\<close> for the panel with id \<open>i\<close>,
  where \<open>panel.context.ready\<close> resolves. \<open>settings s\<close> is the handler's
  variable \<open>settings\<close>: \<open>None\<close> until the settings are loaded.
\<close>

definition widgetAdded :: "(json \<Rightarrow> int) \<Rightarrow> state \<Rightarrow> string \<Rightarrow> state" where
  "widgetAdded conv s i =
     (case panels s i of
        None \<Rightarrow> s
      | Some p \<Rightarrow>
          (let s1 = emit [ToolbarInsert i ''RISE-button''] s;
               s2 = (if appName s \<noteq> ''Rise'' then
                       (let s3 = (case model p of
                                    None \<Rightarrow> s1
                                  | Some md \<Rightarrow> emit [GetMetadata i ''rise''] s1)
                        in if truthy (autolaunchValue conv s p)
                           then risePreview
                                  (emit [CommandExecute ''RISE:preview'' [(''fullscreen'', JBool True)]] s3)
                                  [(''fullscreen'', JBool True)]
                           else s3)
                     else s1)
           in emit [ToolbarInsert i ''RISE-theme-button''] s2))"

section \<open>Notions used in the statements\<close>

text \<open>Truthiness of a value that may be \<open>undefined\<close>.\<close>

definition truthyOpt :: "json option \<Rightarrow> bool" where
  "truthyOpt x = (case x of None \<Rightarrow> False | Some v \<Rightarrow> truthy v)"

text \<open>
  After \<open>x || {}\<close> the \<open>rise\<close> metadata is an object: it was absent, falsy or
  a record.
\<close>

definition riseIsRecord :: "json option \<Rightarrow> bool" where
  "riseIsRecord x = (case orEmpty x of JObj kvs \<Rightarrow> True | _ \<Rightarrow> False)"

text \<open>There is no current notebook widget, or it has no model.\<close>

definition noNotebookModel :: "state \<Rightarrow> bool" where
  "noNotebookModel s = (case currentWidget s of None \<Rightarrow> True | Some (i, p) \<Rightarrow> model p = None)"

text \<open>
  The stage of the theme picker's pipeline an event belongs to: reading the
  metadata, writing it, saving, refreshing an iframe.
\<close>

fun stage :: "event \<Rightarrow> nat option" where
  "stage (GetMetadata i k) = Some 0"
| "stage (SetMetadata i k v) = Some 1"
| "stage (Save i) = Some 2"
| "stage (IframeSrcSet n src) = Some 3"
| "stage e = None"

text \<open>The ids of the twelve themes the picker renders.\<close>

definition themes :: "string list" where
  "themes = [''black'', ''white'', ''simple'', ''sky'', ''beige'', ''blood'', ''night'',
             ''moon'', ''league'', ''dracula'', ''solarized'', ''serif'']"

text \<open>A value that is a boolean, \<open>null\<close> or \<open>undefined\<close>.\<close>

definition booleanOrNullish :: "json option \<Rightarrow> bool" where
  "booleanOrNullish x =
     (case x of None \<Rightarrow> True | Some JNull \<Rightarrow> True | Some (JBool b) \<Rightarrow> True | Some v \<Rightarrow> False)"

fun isCommandExecute :: "event \<Rightarrow> bool" where
  "isCommandExecute (CommandExecute c a) = True"
| "isCommandExecute e = False"


text \<open>
  \<open>currentValue['slide_type']\<close> as the slide-type command reads it from the
  \<open>slideshow\<close> metadata \<open>x\<close> of the active cell.
\<close>

definition currentSlideType :: "json option \<Rightarrow> json option" where
  "currentSlideType x = getField (nullishOrEmpty x) ''slide_type''"

text \<open>
  A sample session: one notebook panel \<open>nb\<close> with one cell, current in the
  tracker and in the shell, and two iframes, the first one a slideshow.
\<close>

definition demoPanel :: "metadata \<Rightarrow> metadata \<Rightarrow> notebook_panel" where
  "demoPanel md cell =
     \<lparr>path = ''talk.ipynb'', model = Some md, cells = [cell], activeCellIndex = 0\<rparr>"

definition demoState :: "notebook_panel \<Rightarrow> state" where
  "demoState p =
     \<lparr>panels = [''nb'' \<mapsto> p], trackerCurrent = Some ''nb'', shellCurrent = Some ''nb'',
      previews = Map.empty, documentFullscreen = False, appName = ''JupyterLab'',
      settings = None, iframes = [''/rise/talk.ipynb?reveal'', ''/help''], statusEl = True,
      trace = []\<rparr>"

definition demoRise :: "(string \<times> json) list" where
  "demoRise = [(''autolaunch'', JBool True), (''theme'', JStr ''black'')]"

definition demoEmpty :: state where
  "demoEmpty = demoState (demoPanel Map.empty Map.empty)"

definition demoWithRise :: state where
  "demoWithRise = demoState (demoPanel [''rise'' \<mapsto> JObj demoRise] Map.empty)"


definition demoSlide :: state where
  "demoSlide = demoState (demoPanel Map.empty [''slideshow'' \<mapsto> JObj [(''slide_type'', JStr ''slide'')]])"

definition demoArray :: state where
  "demoArray = demoState (demoPanel [''rise'' \<mapsto> JArr [JNum 1]] Map.empty)"

definition demoSettings :: state where
  "demoSettings = demoEmpty\<lparr>settings := Some [''autolaunch'' \<mapsto> JBool True]\<rparr>"

section \<open>Basic facts about the host operations\<close>

lemma emit_fields [simp]:
  "trace (emit es s) = trace s @ es"
  "panels (emit es s) = panels s"
  "trackerCurrent (emit es s) = trackerCurrent s"
  "shellCurrent (emit es s) = shellCurrent s"
  "previews (emit es s) = previews s"
  "documentFullscreen (emit es s) = documentFullscreen s"
  "appName (emit es s) = appName s"
  "settings (emit es s) = settings s"
  "iframes (emit es s) = iframes s"
  "statusEl (emit es s) = statusEl s"
  by (simp_all add: emit_def)

lemma emit_Nil [simp]: "emit [] s = s"
  by (simp add: emit_def)

lemma setMetadata_fields [simp]:
  "trace (setMetadata i p md k v s) = trace s @ [SetMetadata i k v]"
  "panels (setMetadata i p md k v s) = (panels s)(i \<mapsto> p\<lparr>model := Some (md(k \<mapsto> v))\<rparr>)"
  "statusEl (setMetadata i p md k v s) = statusEl s"
  "iframes (setMetadata i p md k v s) = iframes s"
  by (simp_all add: setMetadata_def)

lemma refreshEvents_emit [simp]: "refreshEvents (emit es s) = refreshEvents s"
  by (simp add: refreshEvents_def)

lemma refreshEvents_setMetadata [simp]:
  "refreshEvents (setMetadata i p md k v s) = refreshEvents s"
  by (simp add: refreshEvents_def)

lemma refreshRisePreview_fields [simp]:
  "panels (refreshRisePreview s) = panels s"
  "trace (refreshRisePreview s) = trace s @ refreshEvents s"
  by (simp_all add: refreshRisePreview_def)

lemma emitted_append [simp]: "trace s' = trace s @ es \<Longrightarrow> emitted s s' = es"
  by (simp add: emitted_def)

lemma emitted_same [simp]: "emitted s s = []"
  by (simp add: emitted_def)

lemma updateMetadata_trace:
  assumes "currentWidget s = Some (i, p)" "model p = Some md"
  shows "trace (updateMetadata s t) = trace s @
     [GetMetadata i ''rise'',
      SetMetadata i ''rise'' (JObj (AList.update ''theme'' (JStr t) (spread (orEmpty (md ''rise'')))))]
     @ (if statusEl s then [StatusText t] else []) @ [Save i] @ refreshEvents s @ [WidgetUpdate]"
  using assms by (simp add: updateMetadata_def Let_def)

lemma updateMetadata_panels:
  assumes "currentWidget s = Some (i, p)" "model p = Some md"
  shows "panels (updateMetadata s t) = (panels s)(i \<mapsto> p\<lparr>model := Some (md(''rise'' \<mapsto>
            JObj (AList.update ''theme'' (JStr t) (spread (orEmpty (md ''rise'')))))) \<rparr>)"
  using assms by (simp add: updateMetadata_def Let_def)

lemma updateMetadata_noop:
  "currentWidget s = None \<or> (\<exists>i p. currentWidget s = Some (i, p) \<and> model p = None) \<Longrightarrow> updateMetadata s t = s"
  by (auto simp add: updateMetadata_def)

lemma riseSetTheme_trace_ext: "\<exists>es. trace (final (riseSetTheme s args)) = trace s @ es \<and> filter isSave es = []"
  by (auto simp add: riseSetTheme_def split: option.splits sum.splits prod.splits)


lemma riseSetTheme_guard_fails:
  assumes "currentWidget s = None \<or> (\<exists>i p. currentWidget s = Some (i, p) \<and> model p = None)
           \<or> \<not> truthyOpt (map_of args ''theme'')"
  shows "riseSetTheme s args = Returned (emit [BodyClassAdd ''rise-enabled''] s)"
  using assms by (auto simp add: riseSetTheme_def truthyOpt_def split: option.splits)

lemma riseSetTheme_assigns:
  assumes "currentWidget s = Some (i, p)" "model p = Some md"
    and "map_of args ''theme'' = Some t" "truthy t"
    and "assignTheme (orEmpty (md ''rise'')) t = Inr v"
  shows "riseSetTheme s args =
           Returned (emit [ShowDialog ''Theme Updated'', BodyClassAdd ''rise-enabled'']
              (setMetadata i p md ''rise'' v (emit [GetMetadata i ''rise''] s)))"
  using assms by (simp add: riseSetTheme_def)

lemma riseSetTheme_throws:
  assumes "currentWidget s = Some (i, p)" "model p = Some md"
    and "map_of args ''theme'' = Some t" "truthy t"
    and "assignTheme (orEmpty (md ''rise'')) t = Inl e"
  shows "riseSetTheme s args = Threw e (emit [GetMetadata i ''rise''] s)"
  using assms by (simp add: riseSetTheme_def)

lemma assignTheme_value:
  assumes "assignTheme (orEmpty x) t = Inr v"
  shows "(\<exists>kvs. v = JObj kvs) \<or> (x = Some v \<and> (\<exists>xs. v = JArr xs))"
proof (cases "orEmpty x")
  case (JObj kvs)
  with assms show ?thesis by auto
next
  case (JArr xs)
  then have "x = Some (JArr xs)"
    by (auto simp add: orEmpty_def split: option.splits if_splits)
  with assms JArr show ?thesis by auto
qed (use assms in simp_all)

lemma riseSetTheme_writes:
  assumes "currentWidget s = Some (i, p)" "model p = Some md"
    and "map_of args ''theme'' = Some t" "truthy t"
    and "orEmpty (md ''rise'') = JObj kvs"
  shows "riseSetTheme s args =
           Returned (emit [ShowDialog ''Theme Updated'', BodyClassAdd ''rise-enabled'']
              (setMetadata i p md ''rise'' (JObj (AList.update ''theme'' t kvs))
                 (emit [GetMetadata i ''rise''] s)))"
  using assms by (simp add: riseSetTheme_def)

lemma notebookMetadata_setMetadata [simp]:
  "notebookMetadata (setMetadata i p md k v s) i k = Some v"
  by (simp add: notebookMetadata_def)

lemma notebookMetadata_emit [simp]:
  "notebookMetadata (emit es s) i k = notebookMetadata s i k"
  by (simp add: notebookMetadata_def)

lemma notebookMetadata_updateMetadata:
  assumes "currentWidget s = Some (i, p)" "model p = Some md"
  shows "notebookMetadata (updateMetadata s t) i ''rise'' =
           Some (JObj (AList.update ''theme'' (JStr t) (spread (orEmpty (md ''rise'')))))"
  by (simp add: notebookMetadata_def updateMetadata_panels [OF assms])

lemma riseSetTheme_no_save: "filter isSave (emitted s (final (riseSetTheme s args))) = []"
proof -
  obtain es where "trace (final (riseSetTheme s args)) = trace s @ es" "filter isSave es = []"
    using riseSetTheme_trace_ext by blast
  then show ?thesis by simp
qed

lemma currentWidget_demo [simp]: "currentWidget (demoState p) = Some (''nb'', p)"
  by (simp add: currentWidget_def demoState_def)

lemma model_demoPanel [simp]: "model (demoPanel md c) = Some md"
  by (simp add: demoPanel_def)

lemma demoState_fields [simp]:
  "trace (demoState p) = []" "statusEl (demoState p) = True"
  "iframes (demoState p) = [''/rise/talk.ipynb?reveal'', ''/help'']"
  "panels (demoState p) = [''nb'' \<mapsto> p]"
  by (simp_all add: demoState_def)

lemma demoEmpty_current [simp]:
  "currentWidget demoEmpty = Some (''nb'', demoPanel Map.empty Map.empty)"
  by (simp add: demoEmpty_def)

lemma demoWithRise_current [simp]:
  "currentWidget demoWithRise = Some (''nb'', demoPanel [''rise'' \<mapsto> JObj demoRise] Map.empty)"
  by (simp add: demoWithRise_def)

lemma demoEmpty_fields [simp]:
  "trace demoEmpty = []" "statusEl demoEmpty = True"
  "iframes demoEmpty = [''/rise/talk.ipynb?reveal'', ''/help'']"
  "panels demoEmpty = [''nb'' \<mapsto> demoPanel Map.empty Map.empty]"
  by (simp_all add: demoEmpty_def)

lemma demoArray_current [simp]:
  "currentWidget demoArray = Some (''nb'', demoPanel [''rise'' \<mapsto> JArr [JNum 1]] Map.empty)"
  by (simp add: demoArray_def)

lemma demoArray_fields [simp]:
  "trace demoArray = []"
  "panels demoArray = [''nb'' \<mapsto> demoPanel [''rise'' \<mapsto> JArr [JNum 1]] Map.empty]"
  by (simp_all add: demoArray_def)

lemma demoWithRise_fields [simp]:
  "trace demoWithRise = []" "statusEl demoWithRise = True"
  "iframes demoWithRise = [''/rise/talk.ipynb?reveal'', ''/help'']"
  "panels demoWithRise = [''nb'' \<mapsto> demoPanel [''rise'' \<mapsto> JObj demoRise] Map.empty]"
  by (simp_all add: demoWithRise_def)

section \<open>Persisting a theme change\<close>

text \<open>
  Claim C1, as amended. Whenever \<open>ThemePickerDialog.updateMetadata\<close> writes the
  \<open>rise\<close> metadata of a notebook, it invokes the save of that notebook's
  context in the same call. The RISE:set-theme handler never invokes a save,
  whether it writes the metadata or not: it shows a dialog that asks the user
  to save.
\<close>

theorem updateMetadata_saves_riseSetTheme_does_not:
  "(SetMetadata i ''rise'' v \<in> set (emitted s (updateMetadata s t))
      \<longrightarrow> Save i \<in> set (emitted s (updateMetadata s t)))
   \<and> filter isSave (emitted s (final (riseSetTheme s args))) = []"
proof -
  have "Save i \<in> set (emitted s (updateMetadata s t))"
    if w: "SetMetadata i ''rise'' v \<in> set (emitted s (updateMetadata s t))"
  proof (cases "currentWidget s")
    case None
    then have "updateMetadata s t = s" by (simp add: updateMetadata_noop)
    with w show ?thesis by simp
  next
    case (Some ip)
    obtain j p where ip: "currentWidget s = Some (j, p)" using Some by (cases ip) simp
    show ?thesis
    proof (cases "model p")
      case None
      with ip have "updateMetadata s t = s" by (auto simp add: updateMetadata_noop)
      with w show ?thesis by simp
    next
      case (Some md)
      have e: "emitted s (updateMetadata s t) =
          [GetMetadata j ''rise'',
           SetMetadata j ''rise'' (JObj (AList.update ''theme'' (JStr t) (spread (orEmpty (md ''rise'')))))]
          @ (if statusEl s then [StatusText t] else []) @ [Save j] @ refreshEvents s @ [WidgetUpdate]"
        using updateMetadata_trace [OF ip Some] by simp
      from w have "i = j" unfolding e by (auto simp add: refreshEvents_def split: if_splits)
      then show ?thesis unfolding e by simp
    qed
  qed
  then show ?thesis by (simp add: riseSetTheme_no_save)
qed

text \<open>On the sample session the picker writes \<open>{theme: sky}\<close> and saves.\<close>

theorem updateMetadata_saves_witness:
  "SetMetadata ''nb'' ''rise'' (JObj [(''theme'', JStr ''sky'')])
      \<in> set (emitted demoEmpty (updateMetadata demoEmpty ''sky''))
   \<and> Save ''nb'' \<in> set (emitted demoEmpty (updateMetadata demoEmpty ''sky''))"
proof -
  have w: "SetMetadata ''nb'' ''rise'' (JObj [(''theme'', JStr ''sky'')])
      \<in> set (emitted demoEmpty (updateMetadata demoEmpty ''sky''))"
    using updateMetadata_trace [OF demoEmpty_current model_demoPanel, of "''sky''"]
    by (simp add: orEmpty_def)
  show ?thesis
    by (rule conjI, rule w,
        rule updateMetadata_saves_riseSetTheme_does_not [THEN conjunct1, THEN mp, OF w])
qed

text \<open>
  The claim as stated fails for the command: on the sample session
  RISE:set-theme with \<open>theme = sky\<close> creates the \<open>rise\<close> record and invokes no
  save.
\<close>

theorem riseSetTheme_save_counterexample:
  "SetMetadata ''nb'' ''rise'' (JObj [(''theme'', JStr ''sky'')])
      \<in> set (emitted demoEmpty (final (riseSetTheme demoEmpty [(''theme'', JStr ''sky'')])))
   \<and> notebookMetadata demoEmpty ''nb'' ''rise'' = None
   \<and> notebookMetadata (final (riseSetTheme demoEmpty [(''theme'', JStr ''sky'')])) ''nb'' ''rise''
        = Some (JObj [(''theme'', JStr ''sky'')])
   \<and> Save ''nb'' \<notin> set (emitted demoEmpty (final (riseSetTheme demoEmpty [(''theme'', JStr ''sky'')])))"
  by (simp add: riseSetTheme_writes [OF demoEmpty_current model_demoPanel, where kvs = "[]"]
        orEmpty_def notebookMetadata_def)

section \<open>The metadata merge\<close>

text \<open>
  Claim C2. Let the current notebook hold the \<open>rise\<close> record \<open>R\<close>. The theme
  picker, for every theme name \<open>t\<close>, and the RISE:set-theme command, invoked
  with a non-empty theme name \<open>t\<close> as its \<open>theme\<close> argument, write under
  \<open>rise\<close> a record whose \<open>theme\<close> is \<open>t\<close> and whose every other key reads as
  in \<open>R\<close>.
\<close>

theorem setTheme_merges_into_record:
  assumes "currentWidget s = Some (i, p)" and "model p = Some md"
    and "md ''rise'' = Some (JObj R)"
  shows "(\<exists>R'. notebookMetadata (updateMetadata s t) i ''rise'' = Some (JObj R')
            \<and> map_of R' ''theme'' = Some (JStr t)
            \<and> (\<forall>k. k \<noteq> ''theme'' \<longrightarrow> map_of R' k = map_of R k))
       \<and> (t \<noteq> [] \<and> map_of args ''theme'' = Some (JStr t) \<longrightarrow>
           (\<exists>s' R'. riseSetTheme s args = Returned s'
              \<and> notebookMetadata s' i ''rise'' = Some (JObj R')
              \<and> map_of R' ''theme'' = Some (JStr t)
              \<and> (\<forall>k. k \<noteq> ''theme'' \<longrightarrow> map_of R' k = map_of R k)))"
proof (intro conjI impI)
  have o: "orEmpty (md ''rise'') = JObj R"
    using assms(3) by (simp add: orEmpty_def)
  show "\<exists>R'. notebookMetadata (updateMetadata s t) i ''rise'' = Some (JObj R')
            \<and> map_of R' ''theme'' = Some (JStr t)
            \<and> (\<forall>k. k \<noteq> ''theme'' \<longrightarrow> map_of R' k = map_of R k)"
    using notebookMetadata_updateMetadata [OF assms(1,2), of t] o
    by (simp add: update_conv')
  assume a: "t \<noteq> [] \<and> map_of args ''theme'' = Some (JStr t)"
  then have "truthy (JStr t)" by simp
  from riseSetTheme_writes [OF assms(1,2) _ this o] a
  show "\<exists>s' R'. riseSetTheme s args = Returned s'
              \<and> notebookMetadata s' i ''rise'' = Some (JObj R')
              \<and> map_of R' ''theme'' = Some (JStr t)
              \<and> (\<forall>k. k \<noteq> ''theme'' \<longrightarrow> map_of R' k = map_of R k)"
    by (simp add: update_conv')
qed

text \<open>
  On the sample record \<open>{autolaunch: true, theme: black}\<close> both operations
  store \<open>theme = sky\<close> and keep \<open>autolaunch = true\<close>.
\<close>

theorem setTheme_merges_witness:
  "(\<exists>R'. notebookMetadata (updateMetadata demoWithRise ''sky'') ''nb'' ''rise'' = Some (JObj R')
        \<and> map_of R' ''theme'' = Some (JStr ''sky'')
        \<and> map_of R' ''autolaunch'' = Some (JBool True))
   \<and> (\<exists>s' R'. riseSetTheme demoWithRise [(''theme'', JStr ''sky'')] = Returned s'
        \<and> notebookMetadata s' ''nb'' ''rise'' = Some (JObj R')
        \<and> map_of R' ''theme'' = Some (JStr ''sky'')
        \<and> map_of R' ''autolaunch'' = Some (JBool True))"
proof -
  have r: "[''rise'' \<mapsto> JObj demoRise] ''rise'' = Some (JObj demoRise)"
    by simp
  have a: "map_of demoRise ''autolaunch'' = Some (JBool True)"
    by (simp add: demoRise_def)
  note th = setTheme_merges_into_record [OF demoWithRise_current model_demoPanel r,
      of "''sky''" "[(''theme'', JStr ''sky'')]"]
  have ne: "''autolaunch'' \<noteq> ''theme''" by simp
  from th [THEN conjunct1] obtain R1 where
    1: "notebookMetadata (updateMetadata demoWithRise ''sky'') ''nb'' ''rise'' = Some (JObj R1)"
       "map_of R1 ''theme'' = Some (JStr ''sky'')"
       "\<forall>k. k \<noteq> ''theme'' \<longrightarrow> map_of R1 k = map_of demoRise k"
    by blast
  from 1(3) ne a have 13: "map_of R1 ''autolaunch'' = Some (JBool True)" by simp
  have h: "''sky'' \<noteq> [] \<and> map_of [(''theme'', JStr ''sky'')] ''theme'' = Some (JStr ''sky'')"
    by simp
  from th [THEN conjunct2, THEN mp, OF h] obtain s' R2 where
    2: "riseSetTheme demoWithRise [(''theme'', JStr ''sky'')] = Returned s'"
       "notebookMetadata s' ''nb'' ''rise'' = Some (JObj R2)"
       "map_of R2 ''theme'' = Some (JStr ''sky'')"
       "\<forall>k. k \<noteq> ''theme'' \<longrightarrow> map_of R2 k = map_of demoRise k"
    by blast
  from 2(4) ne a have 24: "map_of R2 ''autolaunch'' = Some (JBool True)" by simp
  from 1(1,2) 13 2(1,2,3) 24 show ?thesis by blast
qed

section \<open>The first write creates the record\<close>

text \<open>
  Claim C4. Let the current notebook have no \<open>rise\<close> metadata. After the theme
  picker sets a theme \<open>t\<close>, and after the RISE:set-theme command is invoked
  with a non-empty theme name \<open>t\<close>, the \<open>rise\<close> key holds exactly
  \<open>{theme: t}\<close>.
\<close>

theorem setTheme_creates_record:
  assumes "currentWidget s = Some (i, p)" and "model p = Some md"
    and "md ''rise'' = None"
  shows "notebookMetadata s i ''rise'' = None
       \<and> notebookMetadata (updateMetadata s t) i ''rise'' = Some (JObj [(''theme'', JStr t)])
       \<and> (t \<noteq> [] \<and> map_of args ''theme'' = Some (JStr t) \<longrightarrow>
           (\<exists>s'. riseSetTheme s args = Returned s'
              \<and> notebookMetadata s' i ''rise'' = Some (JObj [(''theme'', JStr t)])))"
proof (intro conjI impI)
  have o: "orEmpty (md ''rise'') = JObj []"
    using assms(3) by (simp add: orEmpty_def)
  have "panels s i = Some p"
    using assms(1) by (simp add: currentWidget_def split: option.splits)
  then show "notebookMetadata s i ''rise'' = None"
    using assms(2,3) by (simp add: notebookMetadata_def)
  show "notebookMetadata (updateMetadata s t) i ''rise'' = Some (JObj [(''theme'', JStr t)])"
    using notebookMetadata_updateMetadata [OF assms(1,2), of t] o by simp
  assume a: "t \<noteq> [] \<and> map_of args ''theme'' = Some (JStr t)"
  then have "truthy (JStr t)" by simp
  from riseSetTheme_writes [OF assms(1,2) _ this o] a
  show "\<exists>s'. riseSetTheme s args = Returned s'
              \<and> notebookMetadata s' i ''rise'' = Some (JObj [(''theme'', JStr t)])"
    by simp
qed

theorem setTheme_creates_witness:
  "notebookMetadata demoEmpty ''nb'' ''rise'' = None
   \<and> notebookMetadata (updateMetadata demoEmpty ''moon'') ''nb'' ''rise''
        = Some (JObj [(''theme'', JStr ''moon'')])
   \<and> (\<exists>s'. riseSetTheme demoEmpty [(''theme'', JStr ''moon'')] = Returned s'
         \<and> notebookMetadata s' ''nb'' ''rise'' = Some (JObj [(''theme'', JStr ''moon'')]))"
proof -
  have r: "Map.empty ''rise'' = (None :: json option)"
    by simp
  note th = setTheme_creates_record [OF demoEmpty_current model_demoPanel r,
      of "''moon''" "[(''theme'', JStr ''moon'')]"]
  have h: "''moon'' \<noteq> [] \<and> map_of [(''theme'', JStr ''moon'')] ''theme'' = Some (JStr ''moon'')"
    by simp
  from th [THEN conjunct1] th [THEN conjunct2, THEN conjunct1]
    th [THEN conjunct2, THEN conjunct2, THEN mp, OF h]
  show ?thesis by blast
qed

section \<open>The stored value is an object, the theme is not validated\<close>

text \<open>
  Claim C5, as amended. Let the current notebook have a model. Whatever the
  \<open>rise\<close> metadata held before, the theme picker leaves an object under
  \<open>rise\<close>. Whenever the RISE:set-theme command writes the \<open>rise\<close>
  metadata, the value it writes is the value stored afterwards, and it is an
  object, unless the \<open>rise\<close> metadata was an array: the command stores that
  array back. Nothing else is enforced: where the \<open>rise\<close> metadata is absent,
  falsy or a record, the command, given any non-empty string \<open>u\<close>, returns
  and leaves under \<open>rise\<close> an object whose \<open>theme\<close> is \<open>u\<close>; the name
  is not checked against the twelve themes of the picker.
\<close>

theorem rise_value_is_object_theme_unchecked:
  assumes "currentWidget s = Some (i, p)" and "model p = Some md"
  shows "(\<exists>kvs. notebookMetadata (updateMetadata s t) i ''rise'' = Some (JObj kvs))
       \<and> (SetMetadata i ''rise'' v \<in> set (emitted s (final (riseSetTheme s args))) \<longrightarrow>
            notebookMetadata (final (riseSetTheme s args)) i ''rise'' = Some v
            \<and> ((\<exists>kvs. v = JObj kvs) \<or> (md ''rise'' = Some v \<and> (\<exists>xs. v = JArr xs))))
       \<and> (riseIsRecord (md ''rise'') \<and> u \<noteq> [] \<and> map_of args ''theme'' = Some (JStr u) \<longrightarrow>
           (\<exists>s' kvs. riseSetTheme s args = Returned s'
              \<and> notebookMetadata s' i ''rise'' = Some (JObj kvs)
              \<and> map_of kvs ''theme'' = Some (JStr u)))"
proof (intro conjI impI)
  show "\<exists>kvs. notebookMetadata (updateMetadata s t) i ''rise'' = Some (JObj kvs)"
    using notebookMetadata_updateMetadata [OF assms, of t] by simp
next
  assume w: "SetMetadata i ''rise'' v \<in> set (emitted s (final (riseSetTheme s args)))"
  have "notebookMetadata (final (riseSetTheme s args)) i ''rise'' = Some v
        \<and> ((\<exists>kvs. v = JObj kvs) \<or> (md ''rise'' = Some v \<and> (\<exists>xs. v = JArr xs)))"
  proof (cases "truthyOpt (map_of args ''theme'')")
    case False
    then have "riseSetTheme s args = Returned (emit [BodyClassAdd ''rise-enabled''] s)"
      by (simp add: riseSetTheme_guard_fails)
    with w show ?thesis by simp
  next
    case True
    then obtain th where th: "map_of args ''theme'' = Some th" "truthy th"
      by (auto simp add: truthyOpt_def split: option.splits)
    show ?thesis
    proof (cases "assignTheme (orEmpty (md ''rise'')) th")
      case (Inl e)
      from w show ?thesis
        by (simp add: riseSetTheme_throws [OF assms th Inl])
    next
      case (Inr v')
      note r = riseSetTheme_assigns [OF assms th Inr]
      from w have "v = v'" by (simp add: r)
      with assignTheme_value [OF Inr] show ?thesis by (simp add: r)
    qed
  qed
  then show "notebookMetadata (final (riseSetTheme s args)) i ''rise'' = Some v"
    and "(\<exists>kvs. v = JObj kvs) \<or> (md ''rise'' = Some v \<and> (\<exists>xs. v = JArr xs))"
    by simp_all
next
  assume a: "riseIsRecord (md ''rise'') \<and> u \<noteq> [] \<and> map_of args ''theme'' = Some (JStr u)"
  then obtain R where o: "orEmpty (md ''rise'') = JObj R"
    by (auto simp add: riseIsRecord_def split: json.splits)
  from a have "truthy (JStr u)" by simp
  from riseSetTheme_writes [OF assms _ this o] a
  show "\<exists>s' kvs. riseSetTheme s args = Returned s'
              \<and> notebookMetadata s' i ''rise'' = Some (JObj kvs)
              \<and> map_of kvs ''theme'' = Some (JStr u)"
    by (simp add: update_conv')
qed

text \<open>
  On the sample record the command accepts \<open>neon\<close>, which is none of the
  twelve themes, and the value it writes is the object stored afterwards.
\<close>

theorem theme_unchecked_witness:
  "''neon'' \<notin> set themes
   \<and> (\<exists>kvs. notebookMetadata (updateMetadata demoWithRise ''sky'') ''nb'' ''rise'' = Some (JObj kvs))
   \<and> SetMetadata ''nb'' ''rise'' (JObj [(''autolaunch'', JBool True), (''theme'', JStr ''neon'')])
        \<in> set (emitted demoWithRise (final (riseSetTheme demoWithRise [(''theme'', JStr ''neon'')])))
   \<and> notebookMetadata (final (riseSetTheme demoWithRise [(''theme'', JStr ''neon'')])) ''nb'' ''rise''
        = Some (JObj [(''autolaunch'', JBool True), (''theme'', JStr ''neon'')])
   \<and> (\<exists>s' kvs. riseSetTheme demoWithRise [(''theme'', JStr ''neon'')] = Returned s'
         \<and> notebookMetadata s' ''nb'' ''rise'' = Some (JObj kvs)
         \<and> map_of kvs ''theme'' = Some (JStr ''neon''))"
proof -
  note th = rise_value_is_object_theme_unchecked [OF demoWithRise_current model_demoPanel,
      where t = "''sky''" and u = "''neon''" and args = "[(''theme'', JStr ''neon'')]"
        and v = "JObj [(''autolaunch'', JBool True), (''theme'', JStr ''neon'')]"]
  have h: "riseIsRecord ([''rise'' \<mapsto> JObj demoRise] ''rise'') \<and> ''neon'' \<noteq> []
           \<and> map_of [(''theme'', JStr ''neon'')] ''theme'' = Some (JStr ''neon'')"
    by (simp add: riseIsRecord_def orEmpty_def)
  have n: "''neon'' \<notin> set themes"
    by (simp add: themes_def)
  have o: "orEmpty ([''rise'' \<mapsto> JObj demoRise] ''rise'') = JObj demoRise"
    by (simp add: orEmpty_def)
  have t: "map_of [(''theme'', JStr ''neon'')] ''theme'' = Some (JStr ''neon'')" "truthy (JStr ''neon'')"
    by simp_all
  have w: "SetMetadata ''nb'' ''rise'' (JObj [(''autolaunch'', JBool True), (''theme'', JStr ''neon'')])
        \<in> set (emitted demoWithRise (final (riseSetTheme demoWithRise [(''theme'', JStr ''neon'')])))"
    by (simp add: riseSetTheme_writes [OF demoWithRise_current model_demoPanel t o] emitted_def
        demoRise_def)
  from n th [THEN conjunct1] w
    th [THEN conjunct2, THEN conjunct1, THEN mp, OF w, THEN conjunct1]
    th [THEN conjunct2, THEN conjunct2, THEN mp, OF h]
  show ?thesis by blast
qed

text \<open>
  The claim as stated fails: where the \<open>rise\<close> metadata is the array
  \<open>[1]\<close>, RISE:set-theme with \<open>theme = sky\<close> returns, having written the
  array back, and the value stored under \<open>rise\<close> is the array, not an
  object.
\<close>

theorem riseSetTheme_array_counterexample:
  "riseSetTheme demoArray [(''theme'', JStr ''sky'')]
     = Returned (final (riseSetTheme demoArray [(''theme'', JStr ''sky'')]))
   \<and> SetMetadata ''nb'' ''rise'' (JArr [JNum 1])
        \<in> set (emitted demoArray (final (riseSetTheme demoArray [(''theme'', JStr ''sky'')])))
   \<and> notebookMetadata (final (riseSetTheme demoArray [(''theme'', JStr ''sky'')])) ''nb'' ''rise''
        = Some (JArr [JNum 1])"
proof -
  have a: "assignTheme (orEmpty ([''rise'' \<mapsto> JArr [JNum 1]] ''rise'')) (JStr ''sky'')
             = Inr (JArr [JNum 1])"
    by (simp add: orEmpty_def)
  have t: "map_of [(''theme'', JStr ''sky'')] ''theme'' = Some (JStr ''sky'')" "truthy (JStr ''sky'')"
    by simp_all
  show ?thesis
    by (simp add: riseSetTheme_assigns [OF demoArray_current model_demoPanel t a] emitted_def)
qed

section \<open>The guards of the theme operations\<close>

text \<open>
  Claim C10. If there is no current notebook widget, or it has no model, or
  the RISE:set-theme command gets no truthy \<open>theme\<close> argument (none, or the
  empty string), the command writes no metadata and invokes no save. If there
  is no current notebook widget, or it has no model, the theme picker's
  \<open>updateMetadata\<close> writes no metadata and invokes no save. The
  RISE:theme-picker command never does either.
\<close>

theorem theme_operations_guarded:
  "(noNotebookModel s \<or> \<not> truthyOpt (map_of args ''theme'') \<longrightarrow>
      panels (final (riseSetTheme s args)) = panels s
      \<and> filter isWrite (emitted s (final (riseSetTheme s args))) = []
      \<and> filter isSave (emitted s (final (riseSetTheme s args))) = [])
   \<and> (noNotebookModel s \<longrightarrow>
      panels (updateMetadata s t) = panels s
      \<and> filter isWrite (emitted s (updateMetadata s t)) = []
      \<and> filter isSave (emitted s (updateMetadata s t)) = [])
   \<and> panels (openThemePicker s) = panels s
   \<and> filter isWrite (emitted s (openThemePicker s)) = []
   \<and> filter isSave (emitted s (openThemePicker s)) = []"
proof (intro conjI impI)
  assume "noNotebookModel s \<or> \<not> truthyOpt (map_of args ''theme'')"
  then have g: "currentWidget s = None \<or> (\<exists>i p. currentWidget s = Some (i, p) \<and> model p = None)
           \<or> \<not> truthyOpt (map_of args ''theme'')"
    by (auto simp add: noNotebookModel_def split: option.splits)
  note r = riseSetTheme_guard_fails [OF g]
  show "panels (final (riseSetTheme s args)) = panels s" by (simp add: r)
  show "filter isWrite (emitted s (final (riseSetTheme s args))) = []" by (simp add: r)
  show "filter isSave (emitted s (final (riseSetTheme s args))) = []" by (simp add: r)
next
  assume "noNotebookModel s"
  then have "currentWidget s = None \<or> (\<exists>i p. currentWidget s = Some (i, p) \<and> model p = None)"
    by (auto simp add: noNotebookModel_def split: option.splits)
  then have u: "updateMetadata s t = s" by (rule updateMetadata_noop)
  show "panels (updateMetadata s t) = panels s" by (simp add: u)
  show "filter isWrite (emitted s (updateMetadata s t)) = []" by (simp add: u)
  show "filter isSave (emitted s (updateMetadata s t)) = []" by (simp add: u)
next
  show "panels (openThemePicker s) = panels s"
    by (simp add: openThemePicker_def split: option.splits)
  show "filter isWrite (emitted s (openThemePicker s)) = []"
    by (simp add: openThemePicker_def split: option.splits)
  show "filter isSave (emitted s (openThemePicker s)) = []"
    by (simp add: openThemePicker_def split: option.splits)
qed

text \<open>
  On the sample record: the command with an empty theme name, and the picker
  when the tracker has no current widget.
\<close>

theorem theme_operations_guarded_witness:
  "\<not> truthyOpt (map_of [(''theme'', JStr '''')] ''theme'')
   \<and> panels (final (riseSetTheme demoWithRise [(''theme'', JStr '''')])) = panels demoWithRise
   \<and> filter isSave (emitted demoWithRise (final (riseSetTheme demoWithRise [(''theme'', JStr '''')]))) = []
   \<and> noNotebookModel (demoWithRise\<lparr>trackerCurrent := None\<rparr>)
   \<and> panels (updateMetadata (demoWithRise\<lparr>trackerCurrent := None\<rparr>) ''sky'')
        = panels (demoWithRise\<lparr>trackerCurrent := None\<rparr>)
   \<and> filter isSave (emitted (demoWithRise\<lparr>trackerCurrent := None\<rparr>)
        (updateMetadata (demoWithRise\<lparr>trackerCurrent := None\<rparr>) ''sky'')) = []"
proof -
  have h1: "\<not> truthyOpt (map_of [(''theme'', JStr '''')] ''theme'')"
    by (simp add: truthyOpt_def)
  have h2: "noNotebookModel (demoWithRise\<lparr>trackerCurrent := None\<rparr>)"
    by (simp add: noNotebookModel_def currentWidget_def)
  note a = theme_operations_guarded [of demoWithRise "[(''theme'', JStr '''')]" "''sky''",
      THEN conjunct1, THEN mp, OF disjI2, OF h1]
  note b = theme_operations_guarded [of "demoWithRise\<lparr>trackerCurrent := None\<rparr>" "[]" "''sky''",
      THEN conjunct2, THEN conjunct1, THEN mp, OF h2]
  from h1 h2 a b show ?thesis by blast
qed

section \<open>The order of the theme picker's steps\<close>

lemma stage_refreshEvents:
  "List.map_filter stage (refreshEvents s) = replicate (length (refreshEvents s)) 3"
proof -
  have "List.map_filter stage (map (\<lambda>(n, src). IframeSrcSet n src) ys) = replicate (length ys) 3"
    for ys :: "(nat \<times> string) list"
    by (induction ys) (auto simp add: List.map_filter_simps)
  then show ?thesis by (simp add: refreshEvents_def)
qed

lemma map_filter_append: "List.map_filter f (xs @ ys) = List.map_filter f xs @ List.map_filter f ys"
  by (simp add: List.map_filter_def)

lemma refreshEvents_covers:
  assumes "n < length (iframes s)" and "includesStr (iframes s ! n) ''reveal''"
  shows "IframeSrcSet n (iframes s ! n) \<in> set (refreshEvents s)"
proof -
  have "(n, iframes s ! n) \<in> set (enumerate 0 (iframes s))"
    using assms(1) by (simp add: in_set_enumerate_eq)
  with assms(2) have "(n, iframes s ! n)
      \<in> set (filter (\<lambda>(n, src). includesStr src ''reveal'') (enumerate 0 (iframes s)))"
    by simp
  then have "(\<lambda>(n, src). IframeSrcSet n src) (n, iframes s ! n) \<in> set (refreshEvents s)"
    unfolding refreshEvents_def set_map by (rule imageI)
  then show ?thesis by simp
qed

text \<open>
  Claim C6. When the theme picker updates the theme of the current notebook,
  the calls it makes are, in this order: one read of the \<open>rise\<close> metadata, one
  write of the \<open>rise\<close> metadata, the status message if its element exists,
  one save of the notebook's context, one \<open>src\<close> reassignment for each iframe
  whose \<open>src\<close> contains \<open>reveal\<close>, and the widget update. So the stages
  read, write, save, refresh never go backwards, and every matching iframe is
  refreshed. The save is invoked before the refresh; the handler does not
  wait for it to complete.
\<close>

theorem updateMetadata_pipeline_order:
  assumes "currentWidget s = Some (i, p)" and "model p = Some md"
  shows "(\<exists>v. emitted s (updateMetadata s t) =
            [GetMetadata i ''rise'', SetMetadata i ''rise'' v]
            @ (if statusEl s then [StatusText t] else [])
            @ [Save i] @ refreshEvents s @ [WidgetUpdate])
       \<and> List.map_filter stage (emitted s (updateMetadata s t))
            = [0, 1, 2] @ replicate (length (refreshEvents s)) 3
       \<and> sorted (List.map_filter stage (emitted s (updateMetadata s t)))
       \<and> (\<forall>n < length (iframes s). includesStr (iframes s ! n) ''reveal'' \<longrightarrow>
             IframeSrcSet n (iframes s ! n) \<in> set (emitted s (updateMetadata s t)))"
proof -
  let ?v = "JObj (AList.update ''theme'' (JStr t) (spread (orEmpty (md ''rise''))))"
  have e: "emitted s (updateMetadata s t) =
            [GetMetadata i ''rise'', SetMetadata i ''rise'' ?v]
            @ (if statusEl s then [StatusText t] else [])
            @ [Save i] @ refreshEvents s @ [WidgetUpdate]"
    using updateMetadata_trace [OF assms, of t] by simp
  have st: "List.map_filter stage (emitted s (updateMetadata s t))
            = [0, 1, 2] @ replicate (length (refreshEvents s)) 3"
    unfolding e by (simp add: map_filter_append stage_refreshEvents List.map_filter_simps)
  have so: "sorted (List.map_filter stage (emitted s (updateMetadata s t)))"
    unfolding st by (simp add: sorted_append)
  have co: "\<forall>n < length (iframes s). includesStr (iframes s ! n) ''reveal'' \<longrightarrow>
             IframeSrcSet n (iframes s ! n) \<in> set (emitted s (updateMetadata s t))"
    unfolding e using refreshEvents_covers by simp
  from e st so co show ?thesis by blast
qed

text \<open>
  On the sample session, whose first iframe is a slideshow and whose second
  is not.
\<close>

theorem updateMetadata_pipeline_witness:
  "emitted demoEmpty (updateMetadata demoEmpty ''sky'') =
     [GetMetadata ''nb'' ''rise'', SetMetadata ''nb'' ''rise'' (JObj [(''theme'', JStr ''sky'')]),
      StatusText ''sky'', Save ''nb'', IframeSrcSet 0 ''/rise/talk.ipynb?reveal'', WidgetUpdate]
   \<and> List.map_filter stage (emitted demoEmpty (updateMetadata demoEmpty ''sky'')) = [0, 1, 2, 3]"
proof -
  note th = updateMetadata_pipeline_order [OF demoEmpty_current model_demoPanel, of "''sky''"]
  have r: "refreshEvents demoEmpty = [IframeSrcSet 0 ''/rise/talk.ipynb?reveal'']"
    by (simp add: refreshEvents_def enumerate_eq_zip upt_rec)
  from th [THEN conjunct1] obtain v where
    e: "emitted demoEmpty (updateMetadata demoEmpty ''sky'') =
            [GetMetadata ''nb'' ''rise'', SetMetadata ''nb'' ''rise'' v]
            @ (if statusEl demoEmpty then [StatusText ''sky''] else [])
            @ [Save ''nb''] @ refreshEvents demoEmpty @ [WidgetUpdate]"
    by blast
  have "SetMetadata ''nb'' ''rise'' (JObj [(''theme'', JStr ''sky'')])
          \<in> set (emitted demoEmpty (updateMetadata demoEmpty ''sky''))"
    using updateMetadata_trace [OF demoEmpty_current model_demoPanel, of "''sky''"]
    by (simp add: orEmpty_def)
  then have v: "v = JObj [(''theme'', JStr ''sky'')]"
    unfolding e r by simp
  from e th [THEN conjunct2, THEN conjunct1] show ?thesis
    unfolding r v by simp
qed

section \<open>Basic facts about the slide-type command\<close>

lemma currentWidget_panels: "currentWidget s = Some (i, p) \<Longrightarrow> panels s i = Some p"
  by (simp add: currentWidget_def split: option.splits)

lemma shellNotebook_panels: "shellNotebook s = Some (i, p) \<Longrightarrow> panels s i = Some p"
  by (simp add: shellNotebook_def split: option.splits)

lemma activeCell_less: "activeCell p = Some c \<Longrightarrow> c < length (cells p)"
  by (simp add: activeCell_def split: if_splits)

lemma setCell_fields [simp]:
  "trace (setCell i p c md s) = trace s"
  "panels (setCell i p c md s) = (panels s)(i \<mapsto> p\<lparr>cells := (cells p)[c := md]\<rparr>)"
  "shellCurrent (setCell i p c md s) = shellCurrent s"
  by (simp_all add: setCell_def)

lemma riseSetSlideType_noop:
  "shellNotebook s = None \<or> (\<exists>i p. shellNotebook s = Some (i, p) \<and> activeCell p = None)
     \<Longrightarrow> riseSetSlideType s args = s"
  by (auto simp add: riseSetSlideType_def)

lemma riseSetSlideType_same:
  assumes "shellNotebook s = Some (i, p)" and "activeCell p = Some c"
    and "strictEq (map_of args ''type'') (currentSlideType ((cells p ! c) ''slideshow''))"
  shows "riseSetSlideType s args = emit [CellGetMetadata i c ''slideshow''] s"
  using assms by (simp add: riseSetSlideType_def currentSlideType_def Let_def)

lemma riseSetSlideType_set:
  assumes "shellNotebook s = Some (i, p)" and "activeCell p = Some c"
    and "\<not> strictEq (map_of args ''type'') (currentSlideType ((cells p ! c) ''slideshow''))"
    and "newSlideshow (map_of args ''type'') (nullishOrEmpty ((cells p ! c) ''slideshow'')) = kvs"
    and "kvs \<noteq> []"
  shows "riseSetSlideType s args =
           emit [CellSetMetadata i c ''slideshow'' (JObj kvs)]
             (setCell i p c ((cells p ! c)(''slideshow'' \<mapsto> JObj kvs))
                (emit [CellGetMetadata i c ''slideshow''] s))"
  using assms by (simp add: riseSetSlideType_def currentSlideType_def Let_def)

lemma riseSetSlideType_delete:
  assumes "shellNotebook s = Some (i, p)" and "activeCell p = Some c"
    and "\<not> strictEq (map_of args ''type'') (currentSlideType ((cells p ! c) ''slideshow''))"
    and "newSlideshow (map_of args ''type'') (nullishOrEmpty ((cells p ! c) ''slideshow'')) = []"
  shows "riseSetSlideType s args =
           emit [CellDeleteMetadata i c ''slideshow'']
             (setCell i p c ((cells p ! c)(''slideshow'' := None))
                (emit [CellGetMetadata i c ''slideshow''] s))"
  using assms by (simp add: riseSetSlideType_def currentSlideType_def Let_def)

lemma cellMetadata_emit [simp]: "cellMetadata (emit es s) i c k = cellMetadata s i c k"
  by (simp add: cellMetadata_def)

lemma cellMetadata_setCell:
  assumes "c < length (cells p)"
  shows "cellMetadata (setCell i p c md s) j n k =
           (if j = i then (if n = c then md k else if n < length (cells p) then (cells p ! n) k else None)
            else cellMetadata s j n k)"
  using assms by (simp add: cellMetadata_def)

lemma cellMetadata_active:
  assumes "shellNotebook s = Some (i, p)" and "activeCell p = Some c"
  shows "cellMetadata s i c k = (cells p ! c) k"
  using shellNotebook_panels [OF assms(1)] activeCell_less [OF assms(2)]
  by (simp add: cellMetadata_def)

lemma shellNotebook_emit [simp]: "shellNotebook (emit es s) = shellNotebook s"
  by (simp add: shellNotebook_def cong: option.case_cong)

lemma currentWidget_emit [simp]: "currentWidget (emit es s) = currentWidget s"
  by (simp add: currentWidget_def cong: option.case_cong)

lemma shellNotebook_setCell:
  "shellNotebook s = Some (i, p)
     \<Longrightarrow> shellNotebook (setCell i p c md s) = Some (i, p\<lparr>cells := (cells p)[c := md]\<rparr>)"
  by (auto simp add: shellNotebook_def split: option.splits)

lemma demoEmpty_shell: "shellNotebook demoEmpty = Some (''nb'', demoPanel Map.empty Map.empty)"
  by (simp add: shellNotebook_def demoEmpty_def demoState_def)

lemma demoEmpty_active: "activeCell (demoPanel Map.empty Map.empty) = Some 0"
  by (simp add: activeCell_def demoPanel_def)

lemma demoEmpty_cell: "cellMetadata demoEmpty ''nb'' 0 ''slideshow'' = None"
  by (simp add: cellMetadata_active [OF demoEmpty_shell demoEmpty_active] demoPanel_def)

lemma demoEmpty_setSlide:
  "riseSetSlideType demoEmpty [(''type'', JStr ''slide'')] =
     emit [CellSetMetadata ''nb'' 0 ''slideshow'' (JObj [(''slide_type'', JStr ''slide'')])]
       (setCell ''nb'' (demoPanel Map.empty Map.empty) 0
          ((cells (demoPanel Map.empty Map.empty) ! 0)
             (''slideshow'' \<mapsto> JObj [(''slide_type'', JStr ''slide'')]))
          (emit [CellGetMetadata ''nb'' 0 ''slideshow''] demoEmpty))"
proof -
  have ne: "\<not> strictEq (map_of [(''type'', JStr ''slide'')] ''type'')
               (currentSlideType ((cells (demoPanel Map.empty Map.empty) ! 0) ''slideshow''))"
    by (simp add: strictEq_def currentSlideType_def nullishOrEmpty_def demoPanel_def)
  have nv: "newSlideshow (map_of [(''type'', JStr ''slide'')] ''type'')
              (nullishOrEmpty ((cells (demoPanel Map.empty Map.empty) ! 0) ''slideshow''))
            = [(''slide_type'', JStr ''slide'')]"
    by (simp add: newSlideshow_def nullishOrEmpty_def demoPanel_def)
  show ?thesis
    by (rule riseSetSlideType_set [OF demoEmpty_shell demoEmpty_active ne nv]) simp
qed

lemma demoEmpty_setSlide_cell:
  "cellMetadata (riseSetSlideType demoEmpty [(''type'', JStr ''slide'')]) ''nb'' 0 ''slideshow''
     = Some (JObj [(''slide_type'', JStr ''slide'')])"
proof -
  have lt: "0 < length (cells (demoPanel Map.empty Map.empty))"
    by (simp add: demoPanel_def)
  show ?thesis
    by (simp add: demoEmpty_setSlide cellMetadata_setCell [OF lt])
qed

lemma demoEmpty_setSlide_emitted:
  "emitted demoEmpty (riseSetSlideType demoEmpty [(''type'', JStr ''slide'')]) =
     [CellGetMetadata ''nb'' 0 ''slideshow'',
      CellSetMetadata ''nb'' 0 ''slideshow'' (JObj [(''slide_type'', JStr ''slide'')])]"
  by (simp add: demoEmpty_setSlide emitted_def)

section \<open>The slide-type command never writes an empty object\<close>




section \<open>The slide-type command is idempotent\<close>

lemma newSlideshow_idem:
  "newSlideshow value (JObj (newSlideshow value cur)) = newSlideshow value cur"
  by (simp add: newSlideshow_def delete_idem split: option.splits)

lemma newSlideshow_Nil:
  "newSlideshow value cur = [] \<Longrightarrow> newSlideshow value (JObj []) = []"
  by (auto simp add: newSlideshow_def split: option.splits if_splits)

lemma setCell_panels_same:
  assumes "panels s i = Some p" and "c < length (cells p)" and "cells p ! c = md"
  shows "panels (setCell i p c md s) = panels s"
proof -
  have "(cells p)[c := md] = cells p"
    using assms(2,3) by (simp add: list_update_same_conv)
  then have "p\<lparr>cells := (cells p)[c := md]\<rparr> = p" by simp
  with assms(1) show ?thesis by (simp add: fun_upd_idem)
qed

lemma riseSetSlideType_panels_fixed:
  assumes sn: "shellNotebook s = Some (i, p)" and ac: "activeCell p = Some c"
    and fx: "strictEq (map_of args ''type'') (currentSlideType ((cells p ! c) ''slideshow''))
       \<or> (newSlideshow (map_of args ''type'') (nullishOrEmpty ((cells p ! c) ''slideshow'')) \<noteq> []
           \<and> (cells p ! c) ''slideshow''
               = Some (JObj (newSlideshow (map_of args ''type'') (nullishOrEmpty ((cells p ! c) ''slideshow'')))))
       \<or> (newSlideshow (map_of args ''type'') (nullishOrEmpty ((cells p ! c) ''slideshow'')) = []
           \<and> (cells p ! c) ''slideshow'' = None)"
  shows "panels (riseSetSlideType s args) = panels s"
proof -
  let ?md = "cells p ! c"
  let ?kvs = "newSlideshow (map_of args ''type'') (nullishOrEmpty (?md ''slideshow''))"
  note ps = shellNotebook_panels [OF sn]
  note lt = activeCell_less [OF ac]
  show ?thesis
  proof (cases "strictEq (map_of args ''type'') (currentSlideType (?md ''slideshow''))")
    case True
    then show ?thesis by (simp add: riseSetSlideType_same [OF sn ac])
  next
    case False
    show ?thesis
    proof (cases "?kvs = []")
      case True
      with fx False have "?md ''slideshow'' = None" by simp
      then have "?md(''slideshow'' := None) = ?md" by (simp add: fun_upd_idem_iff)
      then show ?thesis
        using setCell_panels_same [OF ps lt refl]
        by (simp add: riseSetSlideType_delete [OF sn ac False True] setCell_def)
    next
      case ne: False
      with fx False have "?md ''slideshow'' = Some (JObj ?kvs)" by simp
      then have "?md(''slideshow'' \<mapsto> JObj ?kvs) = ?md" by (simp add: fun_upd_idem_iff)
      then show ?thesis
        using setCell_panels_same [OF ps lt refl]
        by (simp add: riseSetSlideType_set [OF sn ac False refl ne] setCell_def)
    qed
  qed
qed

text \<open>
  Claim C9. Executed with a \<open>type\<close> that equals the active cell's current
  \<open>slide_type\<close>, RISE:set-slide-type writes nothing and leaves all metadata
  as it was. Executed twice in a row with the same arguments, it leaves the
  metadata of every notebook and cell as one execution does.
\<close>

theorem riseSetSlideType_idempotent:
  "(\<forall>i p c. shellNotebook s = Some (i, p) \<and> activeCell p = Some c
        \<and> strictEq (map_of args ''type'') (currentSlideType (cellMetadata s i c ''slideshow''))
      \<longrightarrow> panels (riseSetSlideType s args) = panels s
          \<and> filter isWrite (emitted s (riseSetSlideType s args)) = [])
   \<and> panels (riseSetSlideType (riseSetSlideType s args) args) = panels (riseSetSlideType s args)"
proof (intro conjI allI impI)
  fix i p c
  assume a: "shellNotebook s = Some (i, p) \<and> activeCell p = Some c
        \<and> strictEq (map_of args ''type'') (currentSlideType (cellMetadata s i c ''slideshow''))"
  then have sn: "shellNotebook s = Some (i, p)" and ac: "activeCell p = Some c" by simp_all
  from a have "strictEq (map_of args ''type'') (currentSlideType ((cells p ! c) ''slideshow''))"
    by (simp add: cellMetadata_active [OF sn ac])
  note same = riseSetSlideType_same [OF sn ac this]
  show "panels (riseSetSlideType s args) = panels s" by (simp add: same)
  show "filter isWrite (emitted s (riseSetSlideType s args)) = []" by (simp add: same)
next
  let ?s1 = "riseSetSlideType s args"
  let ?arg = "map_of args ''type''"
  show "panels (riseSetSlideType ?s1 args) = panels ?s1"
  proof (cases "shellNotebook s")
    case None
    then have "?s1 = s" by (simp add: riseSetSlideType_noop)
    then show ?thesis by simp
  next
    case (Some ip)
    then obtain i p where sn: "shellNotebook s = Some (i, p)" by (cases ip) simp
    show ?thesis
    proof (cases "activeCell p")
      case None
      with sn have "?s1 = s" by (auto simp add: riseSetSlideType_noop)
      then show ?thesis by simp
    next
      case (Some c)
      let ?md = "cells p ! c"
      let ?kvs = "newSlideshow ?arg (nullishOrEmpty (?md ''slideshow''))"
      note lt = activeCell_less [OF Some]
      show ?thesis
      proof (cases "strictEq ?arg (currentSlideType (?md ''slideshow''))")
        case True
        note same = riseSetSlideType_same [OF sn Some True]
        have sn1: "shellNotebook ?s1 = Some (i, p)"
          using sn by (simp add: same)
        show ?thesis
          by (rule riseSetSlideType_panels_fixed [OF sn1 Some]) (simp add: True)
      next
        case False
        show ?thesis
        proof (cases "?kvs = []")
          case True
          let ?p1 = "p\<lparr>cells := (cells p)[c := ?md(''slideshow'' := None)]\<rparr>"
          note del = riseSetSlideType_delete [OF sn Some False True]
          have sn1: "shellNotebook ?s1 = Some (i, ?p1)"
            using sn by (simp add: del shellNotebook_setCell)
          have ac1: "activeCell ?p1 = Some c"
            using Some by (simp add: activeCell_def split: if_splits)
          have md1: "cells ?p1 ! c = ?md(''slideshow'' := None)"
            using lt by simp
          have "newSlideshow ?arg (nullishOrEmpty ((cells ?p1 ! c) ''slideshow'')) = []"
            using newSlideshow_Nil [OF True] lt by (simp add: nullishOrEmpty_def)
          then show ?thesis
            using lt by (intro riseSetSlideType_panels_fixed [OF sn1 ac1] disjI2) simp
        next
          case ne: False
          let ?p1 = "p\<lparr>cells := (cells p)[c := ?md(''slideshow'' \<mapsto> JObj ?kvs)]\<rparr>"
          note set = riseSetSlideType_set [OF sn Some False refl ne]
          have sn1: "shellNotebook ?s1 = Some (i, ?p1)"
            using sn by (simp add: set shellNotebook_setCell)
          have ac1: "activeCell ?p1 = Some c"
            using Some by (simp add: activeCell_def split: if_splits)
          have md1: "cells ?p1 ! c = ?md(''slideshow'' \<mapsto> JObj ?kvs)"
            using lt by simp
          have "newSlideshow ?arg (nullishOrEmpty ((cells ?p1 ! c) ''slideshow'')) = ?kvs"
            using newSlideshow_idem lt by (simp add: nullishOrEmpty_def)
          with ne show ?thesis
            using lt by (intro riseSetSlideType_panels_fixed [OF sn1 ac1] disjI2 disjI1) simp
        qed
      qed
    qed
  qed
qed

text \<open>
  On the sample session: after \<open>slide\<close> has been set, setting \<open>slide\<close> again
  writes nothing.
\<close>

theorem riseSetSlideType_idempotent_witness:
  "cellMetadata (riseSetSlideType demoSlide [(''type'', JStr ''slide'')]) ''nb'' 0 ''slideshow''
     = Some (JObj [(''slide_type'', JStr ''slide'')])
   \<and> panels (riseSetSlideType demoSlide [(''type'', JStr ''slide'')]) = panels demoSlide
   \<and> filter isWrite (emitted demoSlide (riseSetSlideType demoSlide [(''type'', JStr ''slide'')])) = []"
proof -
  let ?p = "demoPanel Map.empty [''slideshow'' \<mapsto> JObj [(''slide_type'', JStr ''slide'')]]"
  have sn: "shellNotebook demoSlide = Some (''nb'', ?p)"
    by (simp add: shellNotebook_def demoSlide_def demoState_def)
  have ac: "activeCell ?p = Some 0"
    by (simp add: activeCell_def demoPanel_def)
  have cm: "cellMetadata demoSlide ''nb'' 0 ''slideshow'' = Some (JObj [(''slide_type'', JStr ''slide'')])"
    by (simp add: cellMetadata_active [OF sn ac] demoPanel_def)
  have h: "shellNotebook demoSlide = Some (''nb'', ?p) \<and> activeCell ?p = Some 0
        \<and> strictEq (map_of [(''type'', JStr ''slide'')] ''type'')
             (currentSlideType (cellMetadata demoSlide ''nb'' 0 ''slideshow''))"
    by (simp add: sn ac cm strictEq_def currentSlideType_def nullishOrEmpty_def)
  note th = riseSetSlideType_idempotent [of demoSlide "[(''type'', JStr ''slide'')]",
      THEN conjunct1, THEN spec, THEN spec, THEN spec, THEN mp, OF h]
  from th have "panels (riseSetSlideType demoSlide [(''type'', JStr ''slide'')]) = panels demoSlide"
    by (rule conjunct1)
  then have "cellMetadata (riseSetSlideType demoSlide [(''type'', JStr ''slide'')]) ''nb'' 0 ''slideshow''
     = cellMetadata demoSlide ''nb'' 0 ''slideshow''"
    by (simp add: cellMetadata_def)
  with th cm show ?thesis by simp
qed

section \<open>Which metadata the handlers write\<close>

lemma notebookMetadata_panels:
  "panels s' = panels s \<Longrightarrow> notebookMetadata s' i k = notebookMetadata s i k"
  by (simp add: notebookMetadata_def)

lemma cellMetadata_panels:
  "panels s' = panels s \<Longrightarrow> cellMetadata s' i n k = cellMetadata s i n k"
  by (simp add: cellMetadata_def)

lemma panels_openRise [simp]: "panels (openRise s) = panels s"
  by (simp add: openRise_def split: option.splits)

lemma panels_risePreview [simp]: "panels (risePreview s args) = panels s"
  by (simp add: risePreview_def getCurrent_def Let_def split: option.splits prod.splits)

lemma panels_riseFullScreen [simp]: "panels (riseFullScreen s args) = panels s"
  by (simp add: riseFullScreen_def Let_def split: option.splits json.splits)

lemma panels_openThemePicker [simp]: "panels (openThemePicker s) = panels s"
  by (simp add: openThemePicker_def split: option.splits)

lemma notebookMetadata_other_commands [simp]:
  "notebookMetadata (openRise s) i k = notebookMetadata s i k"
  "notebookMetadata (risePreview s args) i k = notebookMetadata s i k"
  "notebookMetadata (riseFullScreen s args) i k = notebookMetadata s i k"
  "notebookMetadata (openThemePicker s) i k = notebookMetadata s i k"
  by (rule notebookMetadata_panels, simp)+

lemma cellMetadata_other_commands [simp]:
  "cellMetadata (openRise s) i n k = cellMetadata s i n k"
  "cellMetadata (risePreview s args) i n k = cellMetadata s i n k"
  "cellMetadata (riseFullScreen s args) i n k = cellMetadata s i n k"
  "cellMetadata (openThemePicker s) i n k = cellMetadata s i n k"
  by (rule cellMetadata_panels, simp)+

lemma riseSetTheme_panels:
  "panels (final (riseSetTheme s args)) = panels s
   \<or> (\<exists>i p md v. currentWidget s = Some (i, p) \<and> model p = Some md
         \<and> panels (final (riseSetTheme s args))
             = (panels s)(i \<mapsto> p\<lparr>model := Some (md(''rise'' \<mapsto> v))\<rparr>))"
proof (cases "currentWidget s")
  case None
  then have "riseSetTheme s args = Returned (emit [BodyClassAdd ''rise-enabled''] s)"
    by (simp add: riseSetTheme_guard_fails)
  then show ?thesis by simp
next
  case (Some jp)
  then obtain j p where cw: "currentWidget s = Some (j, p)" by (cases jp) simp
  show ?thesis
  proof (cases "model p")
    case None
    with cw have "riseSetTheme s args = Returned (emit [BodyClassAdd ''rise-enabled''] s)"
      by (auto simp add: riseSetTheme_guard_fails)
    then show ?thesis by simp
  next
    case md: (Some md)
    show ?thesis
    proof (cases "truthyOpt (map_of args ''theme'')")
      case False
      then have "riseSetTheme s args = Returned (emit [BodyClassAdd ''rise-enabled''] s)"
        by (simp add: riseSetTheme_guard_fails)
      then show ?thesis by simp
    next
      case True
      then obtain t where t: "map_of args ''theme'' = Some t" "truthy t"
        by (auto simp add: truthyOpt_def split: option.splits)
      show ?thesis
      proof (cases "assignTheme (orEmpty (md ''rise'')) t")
        case (Inl e)
        with cw md t have "riseSetTheme s args = Threw e (emit [GetMetadata j ''rise''] s)"
          by (simp add: riseSetTheme_def)
        then show ?thesis by simp
      next
        case (Inr v)
        with cw md t have "riseSetTheme s args =
            Returned (emit [ShowDialog ''Theme Updated'', BodyClassAdd ''rise-enabled'']
              (setMetadata j p md ''rise'' v (emit [GetMetadata j ''rise''] s)))"
          by (simp add: riseSetTheme_def)
        then have "panels (final (riseSetTheme s args))
             = (panels s)(j \<mapsto> p\<lparr>model := Some (md(''rise'' \<mapsto> v))\<rparr>)"
          by simp
        with cw md show ?thesis by blast
      qed
    qed
  qed
qed

lemma model_update_notebook_frame:
  assumes "panels s i = Some p" and "model p = Some md"
    and "panels s' = (panels s)(i \<mapsto> p\<lparr>model := Some (md(k \<mapsto> v))\<rparr>)"
    and "notebookMetadata s' j k' \<noteq> notebookMetadata s j k'"
  shows "k' = k \<and> j = i"
proof (rule ccontr)
  assume "\<not> (k' = k \<and> j = i)"
  with assms(1-3) have "notebookMetadata s' j k' = notebookMetadata s j k'"
    by (cases "j = i") (simp_all add: notebookMetadata_def)
  with assms(4) show False by simp
qed

lemma model_update_cell_frame:
  assumes "panels s i = Some p"
    and "panels s' = (panels s)(i \<mapsto> p\<lparr>model := m\<rparr>)"
  shows "cellMetadata s' j n k = cellMetadata s j n k"
  using assms by (cases "j = i") (simp_all add: cellMetadata_def)

lemma riseSetTheme_notebook_frame:
  assumes "notebookMetadata (final (riseSetTheme s args)) i k \<noteq> notebookMetadata s i k"
  shows "k = ''rise'' \<and> (\<exists>p. currentWidget s = Some (i, p))"
proof -
  from riseSetTheme_panels [of s args] show ?thesis
  proof
    assume "panels (final (riseSetTheme s args)) = panels s"
    from notebookMetadata_panels [OF this, of i k] assms show ?thesis by simp
  next
    assume "\<exists>j p md v. currentWidget s = Some (j, p) \<and> model p = Some md
         \<and> panels (final (riseSetTheme s args))
             = (panels s)(j \<mapsto> p\<lparr>model := Some (md(''rise'' \<mapsto> v))\<rparr>)"
    then obtain j p md v where cw: "currentWidget s = Some (j, p)" and md: "model p = Some md"
      and ps: "panels (final (riseSetTheme s args))
             = (panels s)(j \<mapsto> p\<lparr>model := Some (md(''rise'' \<mapsto> v))\<rparr>)"
      by blast
    from model_update_notebook_frame [OF currentWidget_panels [OF cw] md ps assms] cw
    show ?thesis by simp
  qed
qed

lemma riseSetTheme_cell_frame:
  "cellMetadata (final (riseSetTheme s args)) i n k = cellMetadata s i n k"
proof -
  from riseSetTheme_panels [of s args] show ?thesis
  proof
    assume "panels (final (riseSetTheme s args)) = panels s"
    then show ?thesis by (rule cellMetadata_panels)
  next
    assume "\<exists>j p md v. currentWidget s = Some (j, p) \<and> model p = Some md
         \<and> panels (final (riseSetTheme s args))
             = (panels s)(j \<mapsto> p\<lparr>model := Some (md(''rise'' \<mapsto> v))\<rparr>)"
    then obtain j p md v where cw: "currentWidget s = Some (j, p)"
      and ps: "panels (final (riseSetTheme s args))
             = (panels s)(j \<mapsto> p\<lparr>model := Some (md(''rise'' \<mapsto> v))\<rparr>)"
      by blast
    from model_update_cell_frame [OF currentWidget_panels [OF cw] ps] show ?thesis .
  qed
qed

lemma riseSetSlideType_panels:
  "panels (riseSetSlideType s args) = panels s
   \<or> (\<exists>i p c v. shellNotebook s = Some (i, p) \<and> activeCell p = Some c
         \<and> panels (riseSetSlideType s args)
             = (panels s)(i \<mapsto> p\<lparr>cells := (cells p)[c := (cells p ! c)(''slideshow'' := v)]\<rparr>))"
proof (cases "shellNotebook s")
  case None
  then have "riseSetSlideType s args = s" by (simp add: riseSetSlideType_noop)
  then show ?thesis by simp
next
  case (Some jp)
  then obtain j p where sn: "shellNotebook s = Some (j, p)" by (cases jp) simp
  show ?thesis
  proof (cases "activeCell p")
    case None
    with sn have "riseSetSlideType s args = s" by (auto simp add: riseSetSlideType_noop)
    then show ?thesis by simp
  next
    case (Some c)
    let ?md = "cells p ! c"
    let ?kvs = "newSlideshow (map_of args ''type'') (nullishOrEmpty (?md ''slideshow''))"
    show ?thesis
    proof (cases "strictEq (map_of args ''type'') (currentSlideType (?md ''slideshow''))")
      case True
      then show ?thesis by (simp add: riseSetSlideType_same [OF sn Some])
    next
      case False
      show ?thesis
      proof (cases "?kvs = []")
        case True
        have "panels (riseSetSlideType s args)
             = (panels s)(j \<mapsto> p\<lparr>cells := (cells p)[c := ?md(''slideshow'' := None)]\<rparr>)"
          by (simp add: riseSetSlideType_delete [OF sn Some False True])
        with sn Some show ?thesis by blast
      next
        case ne: False
        have "panels (riseSetSlideType s args)
             = (panels s)(j \<mapsto> p\<lparr>cells := (cells p)[c := ?md(''slideshow'' := Some (JObj ?kvs))]\<rparr>)"
          by (simp add: riseSetSlideType_set [OF sn Some False refl ne])
        with sn Some show ?thesis by blast
      qed
    qed
  qed
qed

lemma cell_update_notebook_frame:
  assumes "panels s i = Some p"
    and "panels s' = (panels s)(i \<mapsto> p\<lparr>cells := cs\<rparr>)"
  shows "notebookMetadata s' j k = notebookMetadata s j k"
  using assms by (cases "j = i") (simp_all add: notebookMetadata_def)

lemma cell_update_cell_frame:
  assumes "panels s i = Some p" and "c < length (cells p)"
    and "panels s' = (panels s)(i \<mapsto> p\<lparr>cells := (cells p)[c := (cells p ! c)(k := v)]\<rparr>)"
    and "cellMetadata s' j n k' \<noteq> cellMetadata s j n k'"
  shows "k' = k \<and> j = i \<and> n = c"
proof (rule ccontr)
  assume a: "\<not> (k' = k \<and> j = i \<and> n = c)"
  have "cellMetadata s' j n k' = cellMetadata s j n k'"
  proof (cases "j = i")
    case False
    with assms(3) show ?thesis by (simp add: cellMetadata_def)
  next
    case True
    show ?thesis
    proof (cases "n = c")
      case False
      with True assms(1,3) show ?thesis by (simp add: cellMetadata_def)
    next
      case nc: True
      with True a have "k' \<noteq> k" by simp
      with True nc assms(1,2,3) show ?thesis by (simp add: cellMetadata_def)
    qed
  qed
  with assms(4) show False by simp
qed

lemma riseSetSlideType_notebook_frame:
  "notebookMetadata (riseSetSlideType s args) i k = notebookMetadata s i k"
proof -
  from riseSetSlideType_panels [of s args] show ?thesis
  proof
    assume "panels (riseSetSlideType s args) = panels s"
    then show ?thesis by (rule notebookMetadata_panels)
  next
    assume "\<exists>j p c v. shellNotebook s = Some (j, p) \<and> activeCell p = Some c
         \<and> panels (riseSetSlideType s args)
             = (panels s)(j \<mapsto> p\<lparr>cells := (cells p)[c := (cells p ! c)(''slideshow'' := v)]\<rparr>)"
    then obtain j p c v where sn: "shellNotebook s = Some (j, p)"
      and ps: "panels (riseSetSlideType s args)
             = (panels s)(j \<mapsto> p\<lparr>cells := (cells p)[c := (cells p ! c)(''slideshow'' := v)]\<rparr>)"
      by blast
    from cell_update_notebook_frame [OF shellNotebook_panels [OF sn] ps] show ?thesis .
  qed
qed

lemma riseSetSlideType_cell_frame:
  assumes "cellMetadata (riseSetSlideType s args) i n k \<noteq> cellMetadata s i n k"
  shows "k = ''slideshow'' \<and> (\<exists>p. shellNotebook s = Some (i, p) \<and> activeCell p = Some n)"
proof -
  from riseSetSlideType_panels [of s args] show ?thesis
  proof
    assume "panels (riseSetSlideType s args) = panels s"
    from cellMetadata_panels [OF this, of i n k] assms show ?thesis by simp
  next
    assume "\<exists>j p c v. shellNotebook s = Some (j, p) \<and> activeCell p = Some c
         \<and> panels (riseSetSlideType s args)
             = (panels s)(j \<mapsto> p\<lparr>cells := (cells p)[c := (cells p ! c)(''slideshow'' := v)]\<rparr>)"
    then obtain j p c v where sn: "shellNotebook s = Some (j, p)" and ac: "activeCell p = Some c"
      and ps: "panels (riseSetSlideType s args)
             = (panels s)(j \<mapsto> p\<lparr>cells := (cells p)[c := (cells p ! c)(''slideshow'' := v)]\<rparr>)"
      by blast
    from cell_update_cell_frame [OF shellNotebook_panels [OF sn] activeCell_less [OF ac] ps assms]
      sn ac
    show ?thesis by simp
  qed
qed

lemma updateMetadata_notebook_frame:
  assumes "notebookMetadata (updateMetadata s t) i k \<noteq> notebookMetadata s i k"
  shows "k = ''rise'' \<and> (\<exists>p. currentWidget s = Some (i, p))"
proof (cases "currentWidget s")
  case None
  then have "updateMetadata s t = s" by (simp add: updateMetadata_noop)
  with assms show ?thesis by simp
next
  case (Some jp)
  then obtain j p where cw: "currentWidget s = Some (j, p)" by (cases jp) simp
  note ps = currentWidget_panels [OF cw]
  show ?thesis
  proof (cases "model p")
    case None
    with cw have "updateMetadata s t = s" by (auto simp add: updateMetadata_noop)
    with assms show ?thesis by simp
  next
    case (Some md)
    from assms cw ps Some show ?thesis
      by (simp add: notebookMetadata_def updateMetadata_panels [OF cw Some] split: if_splits)
  qed
qed

lemma updateMetadata_cell_frame:
  "cellMetadata (updateMetadata s t) i n k = cellMetadata s i n k"
proof (cases "currentWidget s")
  case None
  then show ?thesis by (simp add: updateMetadata_noop)
next
  case (Some jp)
  then obtain j p where cw: "currentWidget s = Some (j, p)" by (cases jp) simp
  note ps = currentWidget_panels [OF cw]
  show ?thesis
  proof (cases "model p")
    case None
    with cw have "updateMetadata s t = s" by (auto simp add: updateMetadata_noop)
    then show ?thesis by simp
  next
    case (Some md)
    from ps show ?thesis
      by (simp add: cellMetadata_def updateMetadata_panels [OF cw Some])
  qed
qed

text \<open>
  Claim C3, as amended. The handlers write persistent metadata in two places
  only. Notebook metadata changes only under the key \<open>rise\<close> of the tracker's
  current notebook, and only by RISE:set-theme or by the theme picker. Cell
  metadata changes only under the key \<open>slideshow\<close> of the active cell of the
  shell's current notebook, and only by RISE:set-slide-type.
\<close>

theorem metadata_written_only_under_rise_and_slideshow:
  "(notebookMetadata (final (execute s c args)) i k \<noteq> notebookMetadata s i k \<longrightarrow>
      c = RiseSetTheme \<and> k = ''rise'' \<and> (\<exists>p. currentWidget s = Some (i, p)))
   \<and> (cellMetadata (final (execute s c args)) i n k \<noteq> cellMetadata s i n k \<longrightarrow>
      c = RiseSetSlideType \<and> k = ''slideshow''
      \<and> (\<exists>p. shellNotebook s = Some (i, p) \<and> activeCell p = Some n))
   \<and> (notebookMetadata (updateMetadata s t) i k \<noteq> notebookMetadata s i k \<longrightarrow>
      k = ''rise'' \<and> (\<exists>p. currentWidget s = Some (i, p)))
   \<and> cellMetadata (updateMetadata s t) i n k = cellMetadata s i n k"
proof (intro conjI impI)
  assume a: "notebookMetadata (final (execute s c args)) i k \<noteq> notebookMetadata s i k"
  have "c = RiseSetTheme"
  proof (cases c)
    case OpenRise
    with a show ?thesis by simp
  next
    case RisePreview
    with a show ?thesis by simp
  next
    case RiseFullScreen
    with a show ?thesis by simp
  next
    case RiseSetSlideType
    with a show ?thesis by (simp add: riseSetSlideType_notebook_frame)
  next
    case RiseSetTheme
    then show ?thesis .
  next
    case OpenThemePicker
    with a show ?thesis by simp
  qed
  with a have "notebookMetadata (final (riseSetTheme s args)) i k \<noteq> notebookMetadata s i k"
    by simp
  from riseSetTheme_notebook_frame [OF this] \<open>c = RiseSetTheme\<close>
  show "c = RiseSetTheme" "k = ''rise''" "\<exists>p. currentWidget s = Some (i, p)"
    by simp_all
next
  assume a: "cellMetadata (final (execute s c args)) i n k \<noteq> cellMetadata s i n k"
  have "c = RiseSetSlideType"
  proof (cases c)
    case OpenRise
    with a show ?thesis by simp
  next
    case RisePreview
    with a show ?thesis by simp
  next
    case RiseFullScreen
    with a show ?thesis by simp
  next
    case RiseSetSlideType
    then show ?thesis .
  next
    case RiseSetTheme
    with a show ?thesis by (simp add: riseSetTheme_cell_frame)
  next
    case OpenThemePicker
    with a show ?thesis by simp
  qed
  with a have "cellMetadata (riseSetSlideType s args) i n k \<noteq> cellMetadata s i n k"
    by simp
  from riseSetSlideType_cell_frame [OF this] \<open>c = RiseSetSlideType\<close>
  show "c = RiseSetSlideType" "k = ''slideshow''"
    "\<exists>p. shellNotebook s = Some (i, p) \<and> activeCell p = Some n"
    by simp_all
next
  assume "notebookMetadata (updateMetadata s t) i k \<noteq> notebookMetadata s i k"
  from updateMetadata_notebook_frame [OF this]
  show "k = ''rise''" "\<exists>p. currentWidget s = Some (i, p)"
    by simp_all
next
  show "cellMetadata (updateMetadata s t) i n k = cellMetadata s i n k"
    by (rule updateMetadata_cell_frame)
qed

text \<open>
  On the sample session RISE:set-slide-type changes the \<open>slideshow\<close> metadata
  of cell 0, and RISE:set-theme changes the \<open>rise\<close> metadata of the notebook.
\<close>

theorem metadata_written_witness:
  "cellMetadata (final (execute demoEmpty RiseSetSlideType [(''type'', JStr ''slide'')])) ''nb'' 0 ''slideshow''
     \<noteq> cellMetadata demoEmpty ''nb'' 0 ''slideshow''
   \<and> activeCell (demoPanel Map.empty Map.empty) = Some 0
   \<and> notebookMetadata (final (execute demoEmpty RiseSetTheme [(''theme'', JStr ''sky'')])) ''nb'' ''rise''
     \<noteq> notebookMetadata demoEmpty ''nb'' ''rise''
   \<and> currentWidget demoEmpty = Some (''nb'', demoPanel Map.empty Map.empty)"
proof -
  have h1: "cellMetadata (final (execute demoEmpty RiseSetSlideType [(''type'', JStr ''slide'')])) ''nb'' 0 ''slideshow''
     \<noteq> cellMetadata demoEmpty ''nb'' 0 ''slideshow''"
    by (simp add: demoEmpty_setSlide_cell demoEmpty_cell)
  have h2: "notebookMetadata (final (execute demoEmpty RiseSetTheme [(''theme'', JStr ''sky'')])) ''nb'' ''rise''
     \<noteq> notebookMetadata demoEmpty ''nb'' ''rise''"
    by (simp add: riseSetTheme_writes [OF demoEmpty_current model_demoPanel, where kvs = "[]"]
        orEmpty_def notebookMetadata_def)
  note th = metadata_written_only_under_rise_and_slideshow
    [where s = demoEmpty and i = "''nb''" and n = 0 and t = "''sky''"]
  from th [where c = RiseSetSlideType and args = "[(''type'', JStr ''slide'')]" and k = "''slideshow''",
      THEN conjunct2, THEN conjunct1, THEN mp, OF h1]
  have "\<exists>p. shellNotebook demoEmpty = Some (''nb'', p) \<and> activeCell p = Some 0" by simp
  then have a: "activeCell (demoPanel Map.empty Map.empty) = Some 0"
    by (simp add: demoEmpty_shell)
  from th [where c = RiseSetTheme and args = "[(''theme'', JStr ''sky'')]" and k = "''rise''",
      THEN conjunct1, THEN mp, OF h2]
  have "\<exists>p. currentWidget demoEmpty = Some (''nb'', p)" by simp
  then have b: "currentWidget demoEmpty = Some (''nb'', demoPanel Map.empty Map.empty)" by simp
  from h1 a h2 b show ?thesis by blast
qed

text \<open>
  The claim as stated fails: RISE:set-slide-type writes the \<open>slideshow\<close>
  metadata of an individual cell.
\<close>

theorem riseSetSlideType_writes_cell_counterexample:
  "cellMetadata demoEmpty ''nb'' 0 ''slideshow'' = None
   \<and> cellMetadata (final (execute demoEmpty RiseSetSlideType [(''type'', JStr ''slide'')])) ''nb'' 0 ''slideshow''
       = Some (JObj [(''slide_type'', JStr ''slide'')])
   \<and> CellSetMetadata ''nb'' 0 ''slideshow'' (JObj [(''slide_type'', JStr ''slide'')])
       \<in> set (emitted demoEmpty (final (execute demoEmpty RiseSetSlideType [(''type'', JStr ''slide'')])))"
  by (simp add: demoEmpty_cell demoEmpty_setSlide_cell demoEmpty_setSlide_emitted)

section \<open>Auto launch\<close>

lemma bitOr_booleans:
  assumes "x = 0 \<or> x = 1" and "y = 0 \<or> y = 1"
  shows "sint ((word_of_int x :: 32 word) OR word_of_int y) \<noteq> 0 \<longleftrightarrow> x = 1 \<or> y = 1"
  using assms by auto

lemma toInt32_boolean:
  assumes "booleanOrNullish x"
  shows "toInt32 conv x = (if x = Some (JBool True) then 1 else 0)"
  using assms by (auto simp add: toInt32_def booleanOrNullish_def split: option.splits json.splits)

lemma truthy_autolaunchValue:
  assumes "booleanOrNullish (autolaunchField p)"
    and "\<forall>cfg. settings s = Some cfg \<longrightarrow> booleanOrNullish (cfg ''autolaunch'')"
  shows "truthy (autolaunchValue conv s p) \<longleftrightarrow>
           autolaunchField p = Some (JBool True)
           \<or> (\<exists>cfg. settings s = Some cfg \<and> cfg ''autolaunch'' = Some (JBool True))"
proof -
  let ?a = "case autolaunchField p of None \<Rightarrow> JBool False | Some JNull \<Rightarrow> JBool False | Some v \<Rightarrow> v"
  have a: "?a = JBool (autolaunchField p = Some (JBool True))"
    using assms(1) by (auto simp add: booleanOrNullish_def split: option.splits json.splits)
  show ?thesis
  proof (cases "settings s")
    case None
    then show ?thesis by (simp add: autolaunchValue_def a)
  next
    case (Some cfg)
    with assms(2) have b: "booleanOrNullish (cfg ''autolaunch'')" by simp
    have "bitOr conv (Some ?a) (cfg ''autolaunch'') \<noteq> 0 \<longleftrightarrow>
            autolaunchField p = Some (JBool True) \<or> cfg ''autolaunch'' = Some (JBool True)"
      unfolding bitOr_def a toInt32_boolean [OF b]
      by (simp add: toInt32_def bitOr_booleans)
    with Some show ?thesis by (simp add: autolaunchValue_def)
  qed
qed

lemma risePreview_trace:
  "\<exists>es. trace (risePreview s args) = trace s @ es \<and> filter isCommandExecute es = []"
  by (auto simp add: risePreview_def getCurrent_def Let_def split: option.splits prod.splits)

lemma widgetAdded_commands:
  assumes "panels s i = Some p" and "appName s \<noteq> ''Rise''"
  shows "filter isCommandExecute (emitted s (widgetAdded conv s i)) =
           (if truthy (autolaunchValue conv s p)
            then [CommandExecute ''RISE:preview'' [(''fullscreen'', JBool True)]] else [])"
proof -
  let ?s1 = "emit [ToolbarInsert i ''RISE-button''] s"
  let ?s3 = "case model p of None \<Rightarrow> ?s1 | Some md \<Rightarrow> emit [GetMetadata i ''rise''] ?s1"
  let ?a = "[(''fullscreen'', JBool True)]"
  obtain es3 where s3: "trace ?s3 = trace s @ es3" "filter isCommandExecute es3 = []"
    by (cases "model p") simp_all
  show ?thesis
  proof (cases "truthy (autolaunchValue conv s p)")
    case False
    with assms have "widgetAdded conv s i = emit [ToolbarInsert i ''RISE-theme-button''] ?s3"
      by (simp add: widgetAdded_def Let_def)
    then have "trace (widgetAdded conv s i) = trace s @ es3 @ [ToolbarInsert i ''RISE-theme-button'']"
      by (simp add: s3)
    then have "emitted s (widgetAdded conv s i) = es3 @ [ToolbarInsert i ''RISE-theme-button'']"
      by (rule emitted_append)
    with False s3(2) show ?thesis by simp
  next
    case True
    let ?s4 = "emit [CommandExecute ''RISE:preview'' ?a] ?s3"
    obtain es where es: "trace (risePreview ?s4 ?a) = trace ?s4 @ es" "filter isCommandExecute es = []"
      using risePreview_trace by blast
    from True assms have "widgetAdded conv s i
        = emit [ToolbarInsert i ''RISE-theme-button''] (risePreview ?s4 ?a)"
      by (simp add: widgetAdded_def Let_def)
    then have "trace (widgetAdded conv s i) = trace s @ es3 @ [CommandExecute ''RISE:preview'' ?a]
        @ es @ [ToolbarInsert i ''RISE-theme-button'']"
      by (simp add: es s3)
    then have "emitted s (widgetAdded conv s i) = es3 @ [CommandExecute ''RISE:preview'' ?a]
        @ es @ [ToolbarInsert i ''RISE-theme-button'']"
      by (rule emitted_append)
    with True s3(2) es(2) show ?thesis by simp
  qed
qed

text \<open>
  Claim C7. The \<open>autolaunch\<close> field is read from the \<open>rise\<close> metadata of the
  added panel; without a model, without \<open>rise\<close> metadata or without the
  field it is \<open>undefined\<close> and counts as \<open>false\<close>. Let the field and the
  \<open>autolaunch\<close> setting be booleans, where present. When a panel is added
  and the application is not named \<open>Rise\<close>, the handler executes RISE:preview
  once, with \<open>fullscreen: true\<close>, if the field is \<open>true\<close> or the settings
  are loaded and their \<open>autolaunch\<close> is \<open>true\<close>; otherwise it executes no
  command. In the application named \<open>Rise\<close> it executes no command.
\<close>

theorem widgetAdded_autolaunch:
  assumes "panels s i = Some p"
    and "booleanOrNullish (autolaunchField p)"
    and "\<forall>cfg. settings s = Some cfg \<longrightarrow> booleanOrNullish (cfg ''autolaunch'')"
  shows "(appName s \<noteq> ''Rise'' \<longrightarrow>
            filter isCommandExecute (emitted s (widgetAdded conv s i)) =
              (if autolaunchField p = Some (JBool True)
                  \<or> (\<exists>cfg. settings s = Some cfg \<and> cfg ''autolaunch'' = Some (JBool True))
               then [CommandExecute ''RISE:preview'' [(''fullscreen'', JBool True)]] else []))
       \<and> (appName s = ''Rise'' \<longrightarrow> filter isCommandExecute (emitted s (widgetAdded conv s i)) = [])
       \<and> (model p = None \<or> (\<exists>md. model p = Some md \<and> md ''rise'' = None)
            \<or> (\<exists>md kvs. model p = Some md \<and> md ''rise'' = Some (JObj kvs)
                  \<and> map_of kvs ''autolaunch'' = None)
           \<longrightarrow> autolaunchField p = None)"
proof (intro conjI impI)
  assume n: "appName s \<noteq> ''Rise''"
  show "filter isCommandExecute (emitted s (widgetAdded conv s i)) =
              (if autolaunchField p = Some (JBool True)
                  \<or> (\<exists>cfg. settings s = Some cfg \<and> cfg ''autolaunch'' = Some (JBool True))
               then [CommandExecute ''RISE:preview'' [(''fullscreen'', JBool True)]] else [])"
    unfolding widgetAdded_commands [OF assms(1) n] truthy_autolaunchValue [OF assms(2,3)] ..
next
  assume "appName s = ''Rise''"
  with assms(1) have "widgetAdded conv s i
      = emit [ToolbarInsert i ''RISE-theme-button''] (emit [ToolbarInsert i ''RISE-button''] s)"
    by (simp add: widgetAdded_def Let_def)
  then show "filter isCommandExecute (emitted s (widgetAdded conv s i)) = []"
    by (simp add: emitted_def)
next
  assume "model p = None \<or> (\<exists>md. model p = Some md \<and> md ''rise'' = None)
            \<or> (\<exists>md kvs. model p = Some md \<and> md ''rise'' = Some (JObj kvs)
                  \<and> map_of kvs ''autolaunch'' = None)"
  then show "autolaunchField p = None"
    by (auto simp add: autolaunchField_def nullishOrEmpty_def)
qed

text \<open>
  On the sample record, whose \<open>autolaunch\<close> is \<open>true\<close>, without settings;
  and on the sample session without \<open>rise\<close> metadata, with the setting
  \<open>true\<close>.
\<close>

theorem widgetAdded_autolaunch_witness:
  "filter isCommandExecute (emitted demoWithRise (widgetAdded (\<lambda>v. 0) demoWithRise ''nb''))
     = [CommandExecute ''RISE:preview'' [(''fullscreen'', JBool True)]]
   \<and> filter isCommandExecute (emitted demoSettings (widgetAdded (\<lambda>v. 0) demoSettings ''nb''))
     = [CommandExecute ''RISE:preview'' [(''fullscreen'', JBool True)]]
   \<and> filter isCommandExecute (emitted demoEmpty (widgetAdded (\<lambda>v. 0) demoEmpty ''nb'')) = []"
proof -
  let ?pr = "demoPanel [''rise'' \<mapsto> JObj demoRise] Map.empty"
  let ?pe = "demoPanel Map.empty Map.empty"
  have fr: "autolaunchField ?pr = Some (JBool True)"
    by (simp add: autolaunchField_def nullishOrEmpty_def demoRise_def)
  have fe: "autolaunchField ?pe = None"
    by (simp add: autolaunchField_def nullishOrEmpty_def)
  have p1: "panels demoWithRise ''nb'' = Some ?pr" by simp
  have p2: "panels demoSettings ''nb'' = Some ?pe" by (simp add: demoSettings_def)
  have p3: "panels demoEmpty ''nb'' = Some ?pe" by simp
  have s1: "settings demoWithRise = None" by (simp add: demoWithRise_def demoState_def)
  have s2: "settings demoSettings = Some [''autolaunch'' \<mapsto> JBool True]"
    by (simp add: demoSettings_def)
  have s3: "settings demoEmpty = None" by (simp add: demoEmpty_def demoState_def)
  have n1: "appName demoWithRise \<noteq> ''Rise''" by (simp add: demoWithRise_def demoState_def)
  have n2: "appName demoSettings \<noteq> ''Rise''"
    by (simp add: demoSettings_def demoEmpty_def demoState_def)
  have n3: "appName demoEmpty \<noteq> ''Rise''" by (simp add: demoEmpty_def demoState_def)
  have b1: "booleanOrNullish (autolaunchField ?pr)" by (simp add: fr booleanOrNullish_def)
  have b2: "booleanOrNullish (autolaunchField ?pe)" by (simp add: fe booleanOrNullish_def)
  have c1: "\<forall>cfg. settings demoWithRise = Some cfg \<longrightarrow> booleanOrNullish (cfg ''autolaunch'')"
    by (simp add: s1)
  have c2: "\<forall>cfg. settings demoSettings = Some cfg \<longrightarrow> booleanOrNullish (cfg ''autolaunch'')"
    by (auto simp add: s2 booleanOrNullish_def)
  have c3: "\<forall>cfg. settings demoEmpty = Some cfg \<longrightarrow> booleanOrNullish (cfg ''autolaunch'')"
    by (simp add: s3)
  from widgetAdded_autolaunch [OF p1 b1 c1, of "\<lambda>v. 0", THEN conjunct1, THEN mp, OF n1]
  have 1: "filter isCommandExecute (emitted demoWithRise (widgetAdded (\<lambda>v. 0) demoWithRise ''nb''))
     = [CommandExecute ''RISE:preview'' [(''fullscreen'', JBool True)]]"
    by (simp add: fr)
  from widgetAdded_autolaunch [OF p2 b2 c2, of "\<lambda>v. 0", THEN conjunct1, THEN mp, OF n2]
  have 2: "filter isCommandExecute (emitted demoSettings (widgetAdded (\<lambda>v. 0) demoSettings ''nb''))
     = [CommandExecute ''RISE:preview'' [(''fullscreen'', JBool True)]]"
    by (simp add: fe s2)
  from widgetAdded_autolaunch [OF p3 b2 c3, of "\<lambda>v. 0", THEN conjunct1, THEN mp, OF n3]
  have 3: "filter isCommandExecute (emitted demoEmpty (widgetAdded (\<lambda>v. 0) demoEmpty ''nb'')) = []"
    by (simp add: fe s3)
  from 1 2 3 show ?thesis by blast
qed

end
